theory Spec2Isabelle
  imports Complex_Main "HOL-Library.Multiset"
begin

section \<open>TuneTudo: authentication and access control\<close>

text \<open>
  A shallow embedding of the authentication core of the TuneTudo backend:
  \<^item> \<^verbatim>\<open>services.AuthService\<close> (registration, login, session tokens, password reset),
  \<^item> the \<^verbatim>\<open>controllers.AuthController\<close> endpoints of the reset flow,
  \<^item> \<^verbatim>\<open>middleware.AuthMiddleware\<close> and \<^verbatim>\<open>middleware.AdminMiddleware\<close>.

  Every Go function keeps its name. What a Go function reads from outside the process
  (the SQL database, bcrypt, the system clock, the random source, the mail relay, the
  JWT library) is a field of the record \<open>world\<close>: a function makes its external calls
  through that record, so a theorem that quantifies over \<open>world\<close> holds for every
  behaviour of those collaborators. The package-level map \<^verbatim>\<open>passwordResetStore\<close> is
  state: a function that touches it takes the map and returns the new one. A Go
  \<^verbatim>\<open>error\<close> is modelled by its message. Calls to the logger only write to the log
  and never influence a result; they are left out.
\<close>

subsection \<open>Data model\<close>

text \<open>\<^verbatim>\<open>time.Time\<close> is a number of nanoseconds since the epoch; \<^verbatim>\<open>t.Unix()\<close> is whole seconds.\<close>

type_synonym time = int

definition Second :: int where
  "Second = 1000000000"

definition Minute :: int where
  "Minute = 60 * Second"

definition Hour :: int where
  "Hour = 60 * Minute"

definition Unix :: "time \<Rightarrow> int" where
  "Unix t = t div Second"

definition After :: "time \<Rightarrow> time \<Rightarrow> bool" where
  "After t u = (t > u)"

record User =
  ID :: int
  Username :: string
  Email :: string
  PasswordHash :: string
  IsAdmin :: bool
  ProfileImagePath :: "string option"
  CreatedAt :: time
  LastLogin :: "time option"

record LoginRequest =
  login_Username :: string
  login_Password :: string

record RegisterRequest =
  reg_Username :: string
  reg_Email :: string
  reg_Password :: string

record PasswordResetToken =
  Token :: string
  TokenEmail :: string
  ExpiresAt :: time

text \<open>
  \<^verbatim>\<open>var passwordResetStore = make(map[string]PasswordResetToken)\<close>, keyed by email: the
  list of the map's entries. \<open>store_set\<close> is the assignment \<^verbatim>\<open>m[k] = v\<close> and
  \<open>store_delete\<close> is \<^verbatim>\<open>delete(m, k)\<close>; both leave at most one entry for the key. The
  position of an entry in the list means nothing: the order in which a \<^verbatim>\<open>range\<close> visits
  the entries is chosen by the runtime (\<open>range_order\<close> below).
\<close>

type_synonym reset_store = "(string \<times> PasswordResetToken) list"

definition store_delete :: "string \<Rightarrow> reset_store \<Rightarrow> reset_store" where
  "store_delete k store = filter (\<lambda>entry. fst entry \<noteq> k) store"

definition store_set :: "string \<Rightarrow> PasswordResetToken \<Rightarrow> reset_store \<Rightarrow> reset_store" where
  "store_set k v store = (k, v) # store_delete k store"

text \<open>
  The order of a \<^verbatim>\<open>range\<close> over a map: the runtime picks the entry to visit next among
  those not yet visited, and \<open>ks\<close> are its picks. Whatever the picks, every entry is
  visited exactly once, and every order of the entries comes from some picks
  (\<open>range_order_mset\<close> and \<open>range_order_any\<close> below).
\<close>

fun range_order :: "nat list \<Rightarrow> 'a list \<Rightarrow> 'a list" where
  "range_order [] xs = xs"
| "range_order (k # ks) xs =
     (case xs of
        [] \<Rightarrow> []
      | _ # _ \<Rightarrow>
          let i = k mod length xs
          in xs ! i # range_order ks (take i xs @ drop (Suc i) xs))"

subsection \<open>The JWT library's data\<close>

text \<open>
  A claim value as \<^verbatim>\<open>encoding/json\<close> decodes it into \<^verbatim>\<open>jwt.MapClaims\<close>: every JSON number
  becomes a \<^verbatim>\<open>float64\<close>, modelled by the real number it holds (exact for the integers
  below \<open>2^53\<close> that the service issues).
\<close>

datatype json = JNumber real | JString string | JBool bool

type_synonym MapClaims = "string \<rightharpoonup> json"

text \<open>The signing methods of the library, by Go type and \<^verbatim>\<open>alg\<close> name.\<close>

datatype SigningMethod =
    SigningMethodHMAC string
  | SigningMethodRSA string
  | SigningMethodECDSA string
  | SigningMethodNone

definition SigningMethodHS256 :: SigningMethod where
  "SigningMethodHS256 = SigningMethodHMAC ''HS256''"

record jwt_Token =
  Method :: SigningMethod
  Claims :: MapClaims
  Valid :: bool

subsection \<open>The world outside the process\<close>

datatype sql_error = ErrNoRows | ErrDriver string

datatype query =
    SelectUserByEmail string
  | SelectUserForReset string
  | SelectUserForLogin string string

datatype statement =
    InsertUser string string string
  | UpdatePasswordHash string int
  | UpdateLastLogin int

record world =
  db_QueryRow :: "query \<Rightarrow> sql_error + User"
  db_Exec :: "statement \<Rightarrow> sql_error + int"
  bcrypt_GenerateFromPassword :: "string \<Rightarrow> int \<Rightarrow> string + string"
  bcrypt_CompareHashAndPassword :: "string \<Rightarrow> string \<Rightarrow> bool"
  rand_Read :: "nat \<Rightarrow> string + nat list"
  base64_URLEncoding :: "nat list \<Rightarrow> string"
  os_Getenv :: "string \<Rightarrow> string"
  smtp_SendMail :: "string \<Rightarrow> string \<Rightarrow> string list \<Rightarrow> string \<Rightarrow> string option"
  time_Now :: "nat \<Rightarrow> time"
  map_range :: "nat list"
  float64_out_of_range :: "real \<Rightarrow> int"
  jwt_SignedString :: "jwt_Token \<Rightarrow> string \<Rightarrow> string + string"
  jwt_Parse :: "(jwt_Token \<Rightarrow> string + string) \<Rightarrow> string \<Rightarrow> string + jwt_Token"

text \<open>
  \<^item> \<open>db_QueryRow\<close> is \<^verbatim>\<open>db.QueryRow(...).Scan(...)\<close>: the scanned row or the error;
    \<open>db_Exec\<close> is \<^verbatim>\<open>db.Exec\<close>, returning \<^verbatim>\<open>LastInsertId\<close>.
  \<^item> \<open>bcrypt_CompareHashAndPassword h p\<close> is true when the library returns no error.
  \<^item> \<open>time_Now w i\<close> is the value of the \<open>i\<close>-th call of \<^verbatim>\<open>time.Now()\<close> made by the
    service function being run (counted from 0).
  \<^item> \<open>map_range\<close> are the runtime's picks for the order in which a \<^verbatim>\<open>range\<close> over the
    reset store visits its entries; Go leaves that order unspecified.
  \<^item> \<open>float64_out_of_range x\<close> is what the platform's conversion instruction gives for a
    \<^verbatim>\<open>float64\<close> \<open>x\<close> that does not fit the integer type.
  \<^item> \<open>jwt_Parse keyFunc s\<close> is \<^verbatim>\<open>jwt.Parse(s, keyFunc)\<close>.
\<close>

subsection \<open>Password reset: the token store\<close>

definition GenerateSecureToken :: "world \<Rightarrow> string + string" where
  "GenerateSecureToken w =
     (case rand_Read w 32 of
        Inl err \<Rightarrow> Inl err
      | Inr bytes \<Rightarrow> Inr (base64_URLEncoding w bytes))"

definition reset_mail_body :: "string \<Rightarrow> string" where
  "reset_mail_body resetLink =
     ''Hello,'' @ [CHR 0x0A, CHR 0x0A] @
     ''You requested a password reset for your TuneTudo account.'' @ [CHR 0x0A, CHR 0x0A] @
     ''Click the link below to reset your password:'' @ [CHR 0x0A] @
     resetLink @ [CHR 0x0A, CHR 0x0A] @
     ''This link will expire in 15 minutes.'' @ [CHR 0x0A, CHR 0x0A] @
     ''If you didn't request this, please ignore this email and your password will remain unchanged.''
       @ [CHR 0x0A, CHR 0x0A] @
     ''Best regards,'' @ [CHR 0x0A] @
     ''TuneTudo Team''"

definition SendPasswordResetEmail :: "world \<Rightarrow> string \<Rightarrow> string \<Rightarrow> string option" where
  "SendPasswordResetEmail w toEmail token =
     (let smtpHost = os_Getenv w ''SMTP_HOST'';
          smtpPort = os_Getenv w ''SMTP_PORT'';
          smtpUser = os_Getenv w ''SMTP_USER'';
          smtpPass = os_Getenv w ''SMTP_PASS'';
          fromEmail = os_Getenv w ''FROM_EMAIL''
      in if smtpHost = [] \<or> smtpPort = [] \<or> smtpUser = [] \<or> smtpPass = []
         then Some ''email configuration missing in .env file''
         else
           let resetLink = ''https://localhost:2701/reset-password.html?token='' @ token;
               subject = ''Password Reset Request - TuneTudo'';
               crlf = [CHR 0x0D, CHR 0x0A];
               message = ''From: '' @ fromEmail @ crlf @ ''To: '' @ toEmail @ crlf @
                         ''Subject: '' @ subject @ crlf @ crlf @
                         reset_mail_body resetLink @ crlf;
               addr = smtpHost @ '':'' @ smtpPort
           in smtp_SendMail w addr fromEmail [toEmail] message)"

definition RequestPasswordReset ::
  "world \<Rightarrow> reset_store \<Rightarrow> string \<Rightarrow> reset_store \<times> string option" where
  "RequestPasswordReset w store email =
     (case db_QueryRow w (SelectUserByEmail email) of
        Inl ErrNoRows \<Rightarrow> (store, None)
      | Inl (ErrDriver _) \<Rightarrow> (store, Some ''failed to process request'')
      | Inr user \<Rightarrow>
          (case GenerateSecureToken w of
             Inl _ \<Rightarrow> (store, Some ''failed to generate reset token'')
           | Inr token \<Rightarrow>
               let expiresAt = time_Now w 0 + 15 * Minute;
                   store1 = store_set email
                     \<lparr>Token = token, TokenEmail = email, ExpiresAt = expiresAt\<rparr> store
               in (case SendPasswordResetEmail w email token of
                     Some _ \<Rightarrow> (store_delete email store1, Some ''failed to send reset email'')
                   | None \<Rightarrow> (store1, None))))"

text \<open>
  The \<^verbatim>\<open>range\<close> loop of \<^verbatim>\<open>ValidateResetToken\<close>, over the entries still to visit. The
  first entry whose token matches decides the result; an expired match is deleted.
\<close>

fun ValidateResetToken_range ::
  "time \<Rightarrow> reset_store \<Rightarrow> string \<Rightarrow> (string \<times> PasswordResetToken) list \<Rightarrow>
     reset_store \<times> (string + string)" where
  "ValidateResetToken_range now store token [] = (store, Inl ''invalid reset token'')"
| "ValidateResetToken_range now store token ((email, resetData) # rest) =
     (if Token resetData = token
      then (if After now (ExpiresAt resetData)
            then (store_delete email store, Inl ''reset token has expired'')
            else (store, Inr email))
      else ValidateResetToken_range now store token rest)"

definition ValidateResetToken ::
  "world \<Rightarrow> reset_store \<Rightarrow> string \<Rightarrow> reset_store \<times> (string + string)" where
  "ValidateResetToken w store token =
     ValidateResetToken_range (time_Now w 0) store token (range_order (map_range w) store)"

definition ResetPassword ::
  "world \<Rightarrow> reset_store \<Rightarrow> string \<Rightarrow> string \<Rightarrow> reset_store \<times> string option" where
  "ResetPassword w store token newPassword =
     (case ValidateResetToken w store token of
        (store1, Inl err) \<Rightarrow> (store1, Some err)
      | (store1, Inr email) \<Rightarrow>
          if length newPassword < 8
          then (store1, Some ''password must be at least 8 characters'')
          else
            (case db_QueryRow w (SelectUserForReset email) of
               Inl _ \<Rightarrow> (store1, Some ''user not found'')
             | Inr user \<Rightarrow>
                 (case bcrypt_GenerateFromPassword w newPassword 12 of
                    Inl _ \<Rightarrow> (store1, Some ''failed to process password'')
                  | Inr hashedPassword \<Rightarrow>
                      (case db_Exec w (UpdatePasswordHash hashedPassword (ID user)) of
                         Inl _ \<Rightarrow> (store1, Some ''failed to update password'')
                       | Inr _ \<Rightarrow> (store_delete email store1, None)))))"

subsection \<open>Registration and login\<close>

record AuthService =
  jwtSecret :: string

definition bcrypt_DefaultCost :: int where
  "bcrypt_DefaultCost = 10"

definition RegisterUser ::
  "world \<Rightarrow> RegisterRequest \<Rightarrow> string \<Rightarrow> User option \<times> string option" where
  "RegisterUser w req ipAddress =
     (if length (reg_Password req) < 8
      then (None, Some ''password must be at least 8 characters'')
      else
        (case bcrypt_GenerateFromPassword w (reg_Password req) bcrypt_DefaultCost of
           Inl _ \<Rightarrow> (None, Some ''failed to process registration'')
         | Inr hashedPassword \<Rightarrow>
             (case db_Exec w (InsertUser (reg_Username req) (reg_Email req) hashedPassword) of
                Inl _ \<Rightarrow> (None, Some ''username or email already exists'')
              | Inr lastInsertId \<Rightarrow>
                  (Some \<lparr>ID = lastInsertId, Username = reg_Username req, Email = reg_Email req,
                         PasswordHash = [], IsAdmin = False, ProfileImagePath = None,
                         CreatedAt = time_Now w 0, LastLogin = None\<rparr>,
                   None))))"

definition jwt_NewWithClaims :: "SigningMethod \<Rightarrow> MapClaims \<Rightarrow> jwt_Token" where
  "jwt_NewWithClaims method claims = \<lparr>Method = method, Claims = claims, Valid = False\<rparr>"

text \<open>
  The \<^verbatim>\<open>jwt.MapClaims{...}\<close> literal of \<^verbatim>\<open>GenerateToken\<close>. Its elements are evaluated in
  the order written: \<^verbatim>\<open>exp\<close> takes the first reading of the clock and \<^verbatim>\<open>iat\<close> the second.
\<close>

definition GenerateToken_claims :: "world \<Rightarrow> User \<Rightarrow> MapClaims" where
  "GenerateToken_claims w user =
     [''user_id'' \<mapsto> JNumber (of_int (ID user)),
      ''username'' \<mapsto> JString (Username user),
      ''is_admin'' \<mapsto> JBool (IsAdmin user),
      ''exp'' \<mapsto> JNumber (of_int (Unix (time_Now w 0 + Hour * 24 * 7))),
      ''iat'' \<mapsto> JNumber (of_int (Unix (time_Now w 1)))]"

definition GenerateToken :: "world \<Rightarrow> AuthService \<Rightarrow> User \<Rightarrow> string + string" where
  "GenerateToken w s user =
     (let claims = GenerateToken_claims w user;
          token = jwt_NewWithClaims SigningMethodHS256 claims
      in case jwt_SignedString w token (jwtSecret s) of
           Inl err \<Rightarrow> Inl err
         | Inr tokenString \<Rightarrow> Inr tokenString)"

text \<open>
  \<^verbatim>\<open>LoginUser\<close> returns the token, the user and the error, and next to them the calls it
  made to its collaborators, in order.
\<close>

datatype call =
    QueryRowCall query
  | CompareHashAndPasswordCall string string
  | ExecCall statement
  | GenerateTokenCall

definition LoginUser ::
  "world \<Rightarrow> AuthService \<Rightarrow> LoginRequest \<Rightarrow> string \<Rightarrow>
     (string \<times> User option \<times> string option) \<times> call list" where
  "LoginUser w s req ipAddress =
     (let q = SelectUserForLogin (login_Username req) (login_Username req) in
      case db_QueryRow w q of
        Inl _ \<Rightarrow> (([], None, Some ''authorization failed''), [QueryRowCall q])
      | Inr row \<Rightarrow>
          let user = row\<lparr>PasswordHash := [], LastLogin := None\<rparr>;
              passwordHash = PasswordHash row;
              cmp = CompareHashAndPasswordCall passwordHash (login_Password req)
          in if \<not> bcrypt_CompareHashAndPassword w passwordHash (login_Password req)
             then (([], None, Some ''authorization failed''), [QueryRowCall q, cmp])
             else
               let upd = ExecCall (UpdateLastLogin (ID user));
                   calls = [QueryRowCall q, cmp, upd, GenerateTokenCall]
               in (case GenerateToken w s user of
                     Inl _ \<Rightarrow>
                       (([], None, Some ''failed to generate authentication token''), calls)
                   | Inr token \<Rightarrow> ((token, Some user, None), calls)))"

subsection \<open>Session tokens\<close>

text \<open>
  Go's conversions \<^verbatim>\<open>int(x)\<close> and \<^verbatim>\<open>int64(x)\<close> of a \<^verbatim>\<open>float64\<close>, both to 64 bits on the
  platforms the server is built for. The fraction is discarded. When the result does
  not fit in 64 bits, the conversion still succeeds and its value is left to the
  implementation: it is the 64-bit integer that the platform's instruction gives.
  (\<open>int64 n\<close> is the signed value of the low 64 bits of \<open>n\<close>.)
\<close>

definition int64 :: "int \<Rightarrow> int" where
  "int64 n = (n + 9223372036854775808) mod 18446744073709551616 - 9223372036854775808"

definition int_of_float64 :: "world \<Rightarrow> real \<Rightarrow> int" where
  "int_of_float64 w x =
     (let t = (if 0 \<le> x then \<lfloor>x\<rfloor> else \<lceil>x\<rceil>)
      in if - 9223372036854775808 \<le> t \<and> t \<le> 9223372036854775807 then t
         else int64 (float64_out_of_range w x))"

text \<open>The key function that \<^verbatim>\<open>ValidateToken\<close> hands to \<^verbatim>\<open>jwt.Parse\<close>.\<close>

definition ValidateToken_keyFunc :: "AuthService \<Rightarrow> jwt_Token \<Rightarrow> string + string" where
  "ValidateToken_keyFunc s token =
     (case Method token of
        SigningMethodHMAC _ \<Rightarrow> Inr (jwtSecret s)
      | _ \<Rightarrow> Inl ''invalid token signing method'')"

definition ValidateToken :: "world \<Rightarrow> AuthService \<Rightarrow> string \<Rightarrow> string + MapClaims" where
  "ValidateToken w s tokenString =
     (case jwt_Parse w (ValidateToken_keyFunc s) tokenString of
        Inl _ \<Rightarrow> Inl ''invalid or expired token''
      | Inr token \<Rightarrow>
          if Valid token
          then (case Claims token ''exp'' of
                  Some (JNumber expiry) \<Rightarrow>
                    if Unix (time_Now w 0) > int_of_float64 w expiry
                    then Inl ''token has expired''
                    else Inr (Claims token)
                | _ \<Rightarrow> Inr (Claims token))
          else Inl ''invalid token'')"

subsection \<open>The JWT library\<close>

text \<open>
  \<^verbatim>\<open>github.com/golang-jwt/jwt/v4\<close> is not part of the repository. The theorems that do
  not mention the definitions of this subsection hold for any behaviour of
  \<open>jwt_Parse\<close>; the ones about signing and parsing one token need the library's contract,
  given here as a reference model.

  A compact token carries its header's method, its claims and a signature. HMAC is
  idealised: the signature segment is either the tag that some method computed with
  some key over exactly this header and these claims (\<open>c_SignedBy = Some (m, k)\<close>), or
  it verifies under nothing. The serialisation (base64url over JSON) is a parameter.
\<close>

record compact =
  c_Method :: SigningMethod
  c_Claims :: MapClaims
  c_SignedBy :: "(SigningMethod \<times> string) option"

record codec =
  encode :: "compact \<Rightarrow> string"
  decode :: "string \<Rightarrow> compact option"

text \<open>\<^verbatim>\<open>token.Method.Verify\<close> with a byte-string key: only the HMAC methods accept such a key.\<close>

definition lib_Verify :: "SigningMethod \<Rightarrow> string \<Rightarrow> (SigningMethod \<times> string) option \<Rightarrow> bool" where
  "lib_Verify m key signedBy =
     (case m of
        SigningMethodHMAC _ \<Rightarrow> signedBy = Some (m, key)
      | _ \<Rightarrow> False)"

text \<open>
  \<^verbatim>\<open>MapClaims.Valid\<close> at the library's own reading \<open>now\<close> of the clock, in seconds (as
  of release 4.5): \<^verbatim>\<open>exp\<close>, \<^verbatim>\<open>iat\<close> and \<^verbatim>\<open>nbf\<close> are optional; one that is present must
  be a number; a zero counts as absent; a fraction of a second is cut off before the
  comparison. The token is expired from the second \<^verbatim>\<open>exp\<close> on.
\<close>

definition lib_VerifyExpiresAt :: "MapClaims \<Rightarrow> int \<Rightarrow> bool" where
  "lib_VerifyExpiresAt claims now =
     (case claims ''exp'' of
        None \<Rightarrow> True
      | Some (JNumber expiry) \<Rightarrow> expiry = 0 \<or> now < \<lfloor>expiry\<rfloor>
      | Some _ \<Rightarrow> False)"

definition lib_VerifyIssuedAt :: "MapClaims \<Rightarrow> int \<Rightarrow> bool" where
  "lib_VerifyIssuedAt claims now =
     (case claims ''iat'' of
        None \<Rightarrow> True
      | Some (JNumber iat) \<Rightarrow> iat = 0 \<or> \<lfloor>iat\<rfloor> \<le> now
      | Some _ \<Rightarrow> False)"

definition lib_VerifyNotBefore :: "MapClaims \<Rightarrow> int \<Rightarrow> bool" where
  "lib_VerifyNotBefore claims now =
     (case claims ''nbf'' of
        None \<Rightarrow> True
      | Some (JNumber nbf) \<Rightarrow> nbf = 0 \<or> \<lfloor>nbf\<rfloor> \<le> now
      | Some _ \<Rightarrow> False)"

definition lib_SignedString :: "codec \<Rightarrow> jwt_Token \<Rightarrow> string \<Rightarrow> string + string" where
  "lib_SignedString cd token key =
     Inr (encode cd \<lparr>c_Method = Method token, c_Claims = Claims token,
                     c_SignedBy = Some (Method token, key)\<rparr>)"

definition lib_Parse ::
  "codec \<Rightarrow> int \<Rightarrow> (jwt_Token \<Rightarrow> string + string) \<Rightarrow> string \<Rightarrow> string + jwt_Token" where
  "lib_Parse cd now keyFunc tokenString =
     (case decode cd tokenString of
        None \<Rightarrow> Inl ''token is malformed''
      | Some c \<Rightarrow>
          let token = \<lparr>Method = c_Method c, Claims = c_Claims c, Valid = False\<rparr> in
          (case keyFunc token of
             Inl err \<Rightarrow> Inl err
           | Inr key \<Rightarrow>
               if \<not> (lib_VerifyExpiresAt (Claims token) now \<and>
                     lib_VerifyIssuedAt (Claims token) now \<and>
                     lib_VerifyNotBefore (Claims token) now)
               then Inl ''token claims are not valid''
               else if \<not> lib_Verify (Method token) key (c_SignedBy c)
               then Inl ''signature is invalid''
               else Inr (token\<lparr>Valid := True\<rparr>)))"

subsection \<open>Controllers of the reset flow\<close>

text \<open>A JSON response: the HTTP status and the fields of the body that the handler sets.\<close>

record response =
  resp_status :: int
  resp_error :: bool
  resp_message :: string
  resp_email :: "string option"

definition StatusOK :: int where
  "StatusOK = 200"

definition StatusBadRequest :: int where
  "StatusBadRequest = 400"

definition StatusUnauthorized :: int where
  "StatusUnauthorized = 401"

definition StatusForbidden :: int where
  "StatusForbidden = 403"

definition AuthController_ValidateResetToken ::
  "world \<Rightarrow> reset_store \<Rightarrow> string \<Rightarrow> reset_store \<times> response" where
  "AuthController_ValidateResetToken w store token =
     (if token = []
      then (store, \<lparr>resp_status = StatusBadRequest, resp_error = True,
                    resp_message = ''Reset token is required'', resp_email = None\<rparr>)
      else
        (case ValidateResetToken w store token of
           (store1, Inl _) \<Rightarrow>
             (store1, \<lparr>resp_status = StatusBadRequest, resp_error = True,
                       resp_message = ''Invalid or expired reset token'', resp_email = None\<rparr>)
         | (store1, Inr em) \<Rightarrow>
             (store1, \<lparr>resp_status = StatusOK, resp_error = False,
                       resp_message = [], resp_email = Some em\<rparr>)))"

text \<open>The request body of \<^verbatim>\<open>ResetPassword\<close>; \<open>None\<close> when \<^verbatim>\<open>BodyParser\<close> fails.\<close>

record reset_body =
  body_Token :: string
  body_NewPassword :: string
  body_ConfirmPassword :: string

definition AuthController_ResetPassword ::
  "world \<Rightarrow> reset_store \<Rightarrow> reset_body option \<Rightarrow> reset_store \<times> response" where
  "AuthController_ResetPassword w store body =
     (case body of
        None \<Rightarrow>
          (store, \<lparr>resp_status = StatusBadRequest, resp_error = True,
                   resp_message = ''Invalid request format'', resp_email = None\<rparr>)
      | Some req \<Rightarrow>
          if body_Token req = [] \<or> body_NewPassword req = [] \<or> body_ConfirmPassword req = []
          then (store, \<lparr>resp_status = StatusBadRequest, resp_error = True,
                        resp_message = ''All fields are required'', resp_email = None\<rparr>)
          else if body_NewPassword req \<noteq> body_ConfirmPassword req
          then (store, \<lparr>resp_status = StatusBadRequest, resp_error = True,
                        resp_message = ''Passwords do not match'', resp_email = None\<rparr>)
          else if length (body_NewPassword req) < 8
          then (store, \<lparr>resp_status = StatusBadRequest, resp_error = True,
                        resp_message = ''Password must be at least 8 characters long'', resp_email = None\<rparr>)
          else
            (case ResetPassword w store (body_Token req) (body_NewPassword req) of
               (store1, Some err) \<Rightarrow>
                 (store1, \<lparr>resp_status = StatusBadRequest, resp_error = True,
                           resp_message = err, resp_email = None\<rparr>)
             | (store1, None) \<Rightarrow>
                 (store1, \<lparr>resp_status = StatusOK, resp_error = False,
                           resp_message = ''Password reset successful. Please login with your new password.'',
                           resp_email = None\<rparr>)))"

subsection \<open>Middleware\<close>

text \<open>\<^verbatim>\<open>strings.Split(s, sep)\<close> for a separator of one byte.\<close>

fun strings_Split :: "string \<Rightarrow> char \<Rightarrow> string list" where
  "strings_Split [] sep = [[]]"
| "strings_Split (x # xs) sep =
     (if x = sep then [] # strings_Split xs sep
      else (case strings_Split xs sep of
              [] \<Rightarrow> [[x]]
            | p # ps \<Rightarrow> (x # p) # ps))"

text \<open>
  The part of \<^verbatim>\<open>fiber.Ctx\<close> that the middleware uses: the request headers (\<^verbatim>\<open>c.Get\<close> gives
  the empty string for a header that is absent) and the request-scoped \<^verbatim>\<open>Locals\<close>.
\<close>

datatype local = LocalInt int | LocalString string | LocalBool bool

record Ctx =
  Get :: "string \<Rightarrow> string"
  Locals :: "string \<rightharpoonup> local"

text \<open>
  What a handler does with the request: answer it with a status and a message, hand
  it to the next handler with the context as it now is, or panic.
\<close>

datatype handled = Respond int string | Next Ctx | Panic

definition AuthMiddleware :: "world \<Rightarrow> AuthService \<Rightarrow> Ctx \<Rightarrow> handled" where
  "AuthMiddleware w authService c =
     (let authHeader = Get c ''Authorization'' in
      if authHeader = []
      then Respond StatusUnauthorized ''Authentication required''
      else
        let tokenParts = strings_Split authHeader CHR '' '' in
        if length tokenParts \<noteq> 2 \<or> tokenParts ! 0 \<noteq> ''Bearer''
        then Respond StatusUnauthorized ''Invalid authorization format''
        else
          let token = tokenParts ! 1 in
          (case ValidateToken w authService token of
             Inl _ \<Rightarrow> Respond StatusUnauthorized ''Invalid or expired token''
           | Inr claims \<Rightarrow>
               (case claims ''user_id'' of
                  Some (JNumber userID) \<Rightarrow>
                    let username = (case claims ''username'' of
                                      Some (JString u) \<Rightarrow> u | _ \<Rightarrow> []);
                        isAdmin = (case claims ''is_admin'' of
                                     Some (JBool b) \<Rightarrow> b | _ \<Rightarrow> False)
                    in Next (c\<lparr>Locals := (Locals c)
                               (''user_id'' \<mapsto> LocalInt (int_of_float64 w userID),
                                ''username'' \<mapsto> LocalString username,
                                ''is_admin'' \<mapsto> LocalBool isAdmin)\<rparr>)
                | _ \<Rightarrow> Respond StatusUnauthorized ''Invalid token'')))"

text \<open>
  \<^verbatim>\<open>username.(string)\<close> is an unchecked type assertion: it panics when the local is set
  to something that is not a string.
\<close>

definition AdminMiddleware :: "Ctx \<Rightarrow> handled" where
  "AdminMiddleware c =
     (let (isAdmin, ok) = (case Locals c ''is_admin'' of
                             Some (LocalBool b) \<Rightarrow> (b, True)
                           | _ \<Rightarrow> (False, False));
          username = Locals c ''username''
      in case username of
           Some (LocalInt _) \<Rightarrow> Panic
         | Some (LocalBool _) \<Rightarrow> Panic
         | _ \<Rightarrow>
             if \<not> ok \<or> \<not> isAdmin
             then Respond StatusForbidden ''Admin access required''
             else Next c)"

text \<open>
  The two route groups of \<^verbatim>\<open>SetupRoutes\<close>: \<^verbatim>\<open>protected\<close> runs \<^verbatim>\<open>AuthMiddleware\<close>, \<^verbatim>\<open>admin\<close>
  runs \<^verbatim>\<open>AuthMiddleware\<close> and then \<^verbatim>\<open>AdminMiddleware\<close>. A handler that does not call
  \<^verbatim>\<open>c.Next()\<close> ends the chain.
\<close>

definition protected_group :: "world \<Rightarrow> AuthService \<Rightarrow> Ctx \<Rightarrow> handled" where
  "protected_group w authService c = AuthMiddleware w authService c"

definition admin_group :: "world \<Rightarrow> AuthService \<Rightarrow> Ctx \<Rightarrow> handled" where
  "admin_group w authService c =
     (case AuthMiddleware w authService c of
        Next c1 \<Rightarrow> AdminMiddleware c1
      | r \<Rightarrow> r)"

subsection \<open>Sample data\<close>

text \<open>
  A user and a world in which the database is empty, the mail relay is configured and
  accepts every message, the clock stands at zero, and a \<^verbatim>\<open>float64\<close> out of range
  converts to the smallest 64-bit integer (as on amd64); the concrete runs below start
  from it and replace single collaborators.
\<close>

definition alice :: User where
  "alice = \<lparr>ID = 7, Username = ''alice'', Email = ''alice@x.com'',
            PasswordHash = ''$2a$password1'', IsAdmin = False, ProfileImagePath = None,
            CreatedAt = 0, LastLogin = None\<rparr>"

definition sample_world :: world where
  "sample_world =
     \<lparr>db_QueryRow = (\<lambda>q. Inl ErrNoRows),
      db_Exec = (\<lambda>st. Inr 1),
      bcrypt_GenerateFromPassword = (\<lambda>p cost. Inr (''$2a$'' @ p)),
      bcrypt_CompareHashAndPassword = (\<lambda>h p. h = ''$2a$'' @ p),
      rand_Read = (\<lambda>n. Inr (replicate n 0)),
      base64_URLEncoding = (\<lambda>bytes. ''AAAA''),
      os_Getenv = (\<lambda>k. ''configured''),
      smtp_SendMail = (\<lambda>addr from to msg. None),
      time_Now = (\<lambda>i. 0),
      map_range = [],
      float64_out_of_range = (\<lambda>x. - 9223372036854775808),
      jwt_SignedString = (\<lambda>token key. Inl ''no signer''),
      jwt_Parse = (\<lambda>keyFunc tokenString. Inl ''no parser'')\<rparr>"

text \<open>A world in which \<open>alice\<close> is registered, the random source yields \<open>token\<close> and the clock reads \<open>t\<close>.\<close>

definition issuing_world :: "string \<Rightarrow> time \<Rightarrow> world" where
  "issuing_world token t =
     sample_world\<lparr>db_QueryRow := (\<lambda>q. Inr alice),
                  base64_URLEncoding := (\<lambda>bytes. token),
                  time_Now := (\<lambda>i. t)\<rparr>"

text \<open>
  The store before \<open>alice\<close> asks for a reset (it holds an entry of another user), after
  her first request at time 0 and after her second request a minute later.
\<close>

definition bob_entry :: "string \<times> PasswordResetToken" where
  "bob_entry = (''bob@x.com'',
     \<lparr>Token = ''t0'', TokenEmail = ''bob@x.com'', ExpiresAt = 10 * Minute\<rparr>)"

definition store_before :: reset_store where
  "store_before = [bob_entry]"

definition store_after_first :: reset_store where
  "store_after_first =
     [(''alice@x.com'',
       \<lparr>Token = ''t1'', TokenEmail = ''alice@x.com'', ExpiresAt = 15 * Minute\<rparr>),
      bob_entry]"

definition store_after_second :: reset_store where
  "store_after_second =
     [(''alice@x.com'',
       \<lparr>Token = ''t2'', TokenEmail = ''alice@x.com'', ExpiresAt = 60 * Second + 15 * Minute\<rparr>),
      bob_entry]"


definition clock_world :: "time \<Rightarrow> world" where
  "clock_world t = sample_world\<lparr>time_Now := (\<lambda>i. t)\<rparr>"

text \<open>
  A world in which \<open>alice\<close> is registered, every \<^verbatim>\<open>db.Exec\<close> ends as \<open>upd\<close> says, and
  a \<^verbatim>\<open>range\<close> over the store of two entries visits the second entry first.
\<close>

definition resetting_world :: "sql_error + int \<Rightarrow> world" where
  "resetting_world upd =
     sample_world\<lparr>db_QueryRow := (\<lambda>q. Inr alice),
                  db_Exec := (\<lambda>st. upd),
                  map_range := [1]\<rparr>"

text \<open>The \<^verbatim>\<open>users\<close> table holding \<open>alice\<close> alone, and the service as configured by default.\<close>

definition alice_db :: "query \<Rightarrow> sql_error + User" where
  "alice_db q =
     (case q of
        SelectUserByEmail e \<Rightarrow> if e = Email alice then Inr alice else Inl ErrNoRows
      | SelectUserForReset e \<Rightarrow> if e = Email alice then Inr alice else Inl ErrNoRows
      | SelectUserForLogin u e \<Rightarrow>
          if u = Username alice \<or> e = Email alice then Inr alice else Inl ErrNoRows)"

definition registered_world :: world where
  "registered_world = sample_world\<lparr>db_QueryRow := alice_db\<rparr>"

definition sample_service :: AuthService where
  "sample_service = \<lparr>jwtSecret = ''sup3rdup3rs3cr3t''\<rparr>"

text \<open>
  Sixteen minutes after the issuance in \<open>store_after_first\<close>, and the body of a reset
  request that passes the controller's own checks.
\<close>

definition late_world :: world where
  "late_world = (resetting_world (Inr 1))\<lparr>time_Now := (\<lambda>i. 16 * Minute)\<rparr>"

definition reset_request :: "string \<Rightarrow> reset_body option" where
  "reset_request token =
     Some \<lparr>body_Token = token, body_NewPassword = ''newpassword'',
           body_ConfirmPassword = ''newpassword''\<rparr>"

text \<open>
  Tokens. \<open>alice\<close>'s session token is issued at \<open>issue_time\<close>. The sample codec knows
  seven token strings: her token; the same claims under HS512 and under RS256; her
  claims signed with another key; a token of the server's key without \<^verbatim>\<open>user_id\<close>; an
  administrator's token; and a token of the server's key whose \<^verbatim>\<open>user_id\<close> is \<open>10^30\<close>; the only token that is ever signed in the runs below is
  hers, and the codec encodes to her token string. \<open>token_world libNow now\<close> links the reference library, whose
  clock reads \<open>libNow\<close> seconds, and lets the service's clock read \<open>now\<close>.
\<close>

definition issue_time :: time where
  "issue_time = 1700000000 * Second"

definition alice_claims :: MapClaims where
  "alice_claims = GenerateToken_claims (sample_world\<lparr>time_Now := (\<lambda>i. issue_time)\<rparr>) alice"

definition signed_by :: "SigningMethod \<Rightarrow> MapClaims \<Rightarrow> string \<Rightarrow> compact" where
  "signed_by m claims key = \<lparr>c_Method = m, c_Claims = claims, c_SignedBy = Some (m, key)\<rparr>"

definition sample_codec :: codec where
  "sample_codec =
     \<lparr>encode = (\<lambda>c. ''alice.hs256''),
      decode = (\<lambda>s.
        if s = ''alice.hs256''
          then Some (signed_by SigningMethodHS256 alice_claims ''sup3rdup3rs3cr3t'')
        else if s = ''alice.hs512''
          then Some (signed_by (SigningMethodHMAC ''HS512'') alice_claims ''sup3rdup3rs3cr3t'')
        else if s = ''alice.rs256''
          then Some (signed_by (SigningMethodRSA ''RS256'') alice_claims ''sup3rdup3rs3cr3t'')
        else if s = ''alice.otherkey''
          then Some (signed_by SigningMethodHS256 alice_claims ''guess'')
        else if s = ''nameless.hs256''
          then Some (signed_by SigningMethodHS256 [''is_admin'' \<mapsto> JBool True] ''sup3rdup3rs3cr3t'')
        else if s = ''root.hs256''
          then Some (signed_by SigningMethodHS256
                 (alice_claims(''username'' \<mapsto> JString ''root'', ''is_admin'' \<mapsto> JBool True))
                 ''sup3rdup3rs3cr3t'')
        else if s = ''huge.hs256''
          then Some (signed_by SigningMethodHS256
                 (alice_claims(''user_id'' \<mapsto> JNumber 1000000000000000000000000000000))
                 ''sup3rdup3rs3cr3t'')
        else None)\<rparr>"

definition token_world :: "int \<Rightarrow> time \<Rightarrow> world" where
  "token_world libNow now =
     sample_world\<lparr>time_Now := (\<lambda>i. now),
                  jwt_SignedString := lib_SignedString sample_codec,
                  jwt_Parse := lib_Parse sample_codec libNow\<rparr>"

text \<open>A clock whose first reading is the last nanosecond of a second and whose next is the second after.\<close>

definition straddling_world :: world where
  "straddling_world = sample_world\<lparr>time_Now := (\<lambda>i. if i = 0 then 999999999 else 1000000000)\<rparr>"

text \<open>
  A library that would accept whatever it is given and return a token expired at
  second 100, while the service's clock reads second 200.
\<close>

definition lenient_world :: world where
  "lenient_world =
     sample_world\<lparr>time_Now := (\<lambda>i. 200 * Second),
                  jwt_Parse := (\<lambda>keyFunc tokenString.
                    Inr \<lparr>Method = SigningMethodHS256, Claims = [''exp'' \<mapsto> JNumber 100],
                         Valid = True\<rparr>)\<rparr>"

text \<open>
  Requests. \<open>request h\<close> is a request whose \<^verbatim>\<open>Authorization\<close> header is \<open>h\<close> and whose
  \<^verbatim>\<open>Locals\<close> are empty; \<open>attach c userID username isAdmin\<close> is the context \<open>c\<close> after the
  three calls \<^verbatim>\<open>c.Locals("user_id", ...)\<close>, \<^verbatim>\<open>c.Locals("username", ...)\<close> and
  \<^verbatim>\<open>c.Locals("is_admin", ...)\<close>; \<open>serving_world\<close> is the moment 100 seconds after
  \<open>issue_time\<close>.
\<close>

definition request :: "string \<Rightarrow> Ctx" where
  "request authorization =
     \<lparr>Get = (\<lambda>key. if key = ''Authorization'' then authorization else []),
      Locals = Map.empty\<rparr>"

definition attach :: "Ctx \<Rightarrow> int \<Rightarrow> string \<Rightarrow> bool \<Rightarrow> Ctx" where
  "attach c userID username isAdmin =
     c\<lparr>Locals := (Locals c)(''user_id'' \<mapsto> LocalInt userID,
                             ''username'' \<mapsto> LocalString username,
                             ''is_admin'' \<mapsto> LocalBool isAdmin)\<rparr>"

definition serving_world :: world where
  "serving_world = token_world 1700000100 (1700000100 * Second)"

section \<open>Properties\<close>

subsection \<open>The order of a range\<close>

text \<open>Whatever the runtime picks, a \<^verbatim>\<open>range\<close> visits every entry exactly once.\<close>

lemma range_order_mset: "mset (range_order ks xs) = mset xs"
proof (induction ks arbitrary: xs)
  case Nil
  show ?case by simp
next
  case (Cons k ks)
  show ?case
  proof (cases xs)
    case Nil
    then show ?thesis by simp
  next
    case (Cons y ys)
    let ?i = "k mod length xs"
    from Cons have i: "?i < length xs" by simp
    have "mset xs = mset (take ?i xs @ xs ! ?i # drop (Suc ?i) xs)"
      using id_take_nth_drop [OF i] by simp
    then have "mset xs = add_mset (xs ! ?i) (mset (take ?i xs @ drop (Suc ?i) xs))"
      by simp
    moreover have "range_order (k # ks) xs =
        xs ! ?i # range_order ks (take ?i xs @ drop (Suc ?i) xs)"
      using Cons by (simp add: Let_def)
    ultimately show ?thesis using Cons.IH by simp
  qed
qed

lemma range_order_set: "set (range_order ks xs) = set xs"
  using range_order_mset [of ks xs] by (rule mset_eq_setD)

text \<open>Every order of the entries is the order of some run of the loop.\<close>

lemma range_order_any:
  assumes "mset ys = mset xs"
  shows "\<exists>ks. range_order ks xs = ys"
  using assms
proof (induction ys arbitrary: xs)
  case Nil
  then have "range_order [] xs = []" by simp
  then show ?case ..
next
  case (Cons y ys)
  from Cons.prems have "y \<in> set xs"
    by (metis list.set_intros(1) mset_eq_setD)
  then obtain i where i: "i < length xs" "xs ! i = y"
    by (auto simp: in_set_conv_nth)
  let ?rest = "take i xs @ drop (Suc i) xs"
  have "mset xs = mset (take i xs @ xs ! i # drop (Suc i) xs)"
    using id_take_nth_drop [OF i(1)] by simp
  with Cons.prems i have "mset ys = mset ?rest" by simp
  from Cons.IH [OF this] obtain ks where ks: "range_order ks ?rest = ys" ..
  from i have "xs \<noteq> []" by auto
  then obtain z zs where "xs = z # zs" by (cases xs) auto
  with i ks have "range_order (i # ks) xs = y # ys" by (simp add: Let_def)
  then show ?case ..
qed

subsection \<open>The reset-token store\<close>

text \<open>
  \<open>store_set\<close> and \<open>store_delete\<close> are the assignment and the deletion of a map, and they
  keep every key at one entry.
\<close>

lemma map_of_store_delete: "map_of (store_delete k store) = (map_of store)(k := None)"
  by (induction store) (auto simp: store_delete_def fun_eq_iff)

lemma map_of_store_set: "map_of (store_set k v store) = (map_of store)(k \<mapsto> v)"
  using map_of_store_delete [of k store] by (auto simp: store_set_def fun_eq_iff)

lemma distinct_store_delete:
  "distinct (map fst store) \<Longrightarrow> distinct (map fst (store_delete k store))"
  by (simp add: store_delete_def distinct_map_filter)

lemma distinct_store_set:
  "distinct (map fst store) \<Longrightarrow> distinct (map fst (store_set k v store))"
  by (auto simp: store_set_def store_delete_def distinct_map_filter)



lemma store_delete_store_set: "store_delete k (store_set k v store) = store_delete k store"
  by (induction store) (auto simp: store_set_def store_delete_def)



text \<open>The three ways the scan can end, and what each does to the store.\<close>

lemma ValidateResetToken_range_cases:
  "ValidateResetToken_range now store token es = (store', res) \<Longrightarrow>
     (store' = store \<and> res = Inl ''invalid reset token'') \<or>
     (\<exists>email r. (email, r) \<in> set es \<and> Token r = token \<and> \<not> After now (ExpiresAt r) \<and>
        store' = store \<and> res = Inr email) \<or>
     (\<exists>email r. (email, r) \<in> set es \<and> Token r = token \<and> After now (ExpiresAt r) \<and>
        store' = store_delete email store \<and> res = Inl ''reset token has expired'')"
proof (induction es)
  case Nil
  then show ?case by simp
next
  case (Cons e es)
  obtain a b where e: "e = (a, b)" by (cases e)
  show ?case
  proof (cases "Token b = token")
    case True
    show ?thesis
    proof (cases "After now (ExpiresAt b)")
      case True
      with \<open>Token b = token\<close> Cons.prems e
      have "store' = store_delete a store" "res = Inl ''reset token has expired''"
        by simp_all
      moreover have "(a, b) \<in> set (e # es)" using e by simp
      ultimately show ?thesis using True \<open>Token b = token\<close> by blast
    next
      case False
      with \<open>Token b = token\<close> Cons.prems e have "store' = store" "res = Inr a"
        by simp_all
      moreover have "(a, b) \<in> set (e # es)" using e by simp
      ultimately show ?thesis using False \<open>Token b = token\<close> by blast
    qed
  next
    case False
    with Cons.prems e have "ValidateResetToken_range now store token es = (store', res)"
      by simp
    from Cons.IH [OF this] have
      "(store' = store \<and> res = Inl ''invalid reset token'') \<or>
       (\<exists>email r. (email, r) \<in> set es \<and> Token r = token \<and> \<not> After now (ExpiresAt r) \<and>
          store' = store \<and> res = Inr email) \<or>
       (\<exists>email r. (email, r) \<in> set es \<and> Token r = token \<and> After now (ExpiresAt r) \<and>
          store' = store_delete email store \<and> res = Inl ''reset token has expired'')" .
    moreover have "set es \<subseteq> set (e # es)" by auto
    ultimately show ?thesis by blast
  qed
qed



text \<open>Once the user is found and a token generated, the entry for the email is replaced.\<close>

lemma RequestPasswordReset_issued:
  assumes "db_QueryRow w (SelectUserByEmail email) = Inr u"
      and "GenerateSecureToken w = Inr t"
  shows "RequestPasswordReset w store email =
     (if SendPasswordResetEmail w email t = None
      then (store_set email
              \<lparr>Token = t, TokenEmail = email, ExpiresAt = time_Now w 0 + 15 * Minute\<rparr> store,
            None)
      else (store_delete email store, Some ''failed to send reset email''))"
  using assms
  by (auto simp: RequestPasswordReset_def Let_def store_delete_store_set split: option.splits)



lemma issuing_world_simps:
  "db_QueryRow (issuing_world tok t) q = Inr alice"
  "GenerateSecureToken (issuing_world tok t) = Inr tok"
  "SendPasswordResetEmail (issuing_world tok t) em tok' = None"
  "time_Now (issuing_world tok t) i = t"
  by (simp_all add: issuing_world_def sample_world_def GenerateSecureToken_def
      SendPasswordResetEmail_def Let_def)





text \<open>
  The same happens when the first token drawn for the email is the one that the entry
  of another email holds: it resolves, to that other email, before and after the
  second issuance.
\<close>

lemma reissue_with_token_of_another_email_still_resolves:
  "RequestPasswordReset (issuing_world ''t0'' 0) store_before ''alice@x.com'' =
     (store_set ''alice@x.com''
        \<lparr>Token = ''t0'', TokenEmail = ''alice@x.com'', ExpiresAt = 15 * Minute\<rparr> store_before,
      None) \<and>
   RequestPasswordReset (issuing_world ''t2'' (60 * Second))
       (store_set ''alice@x.com''
          \<lparr>Token = ''t0'', TokenEmail = ''alice@x.com'', ExpiresAt = 15 * Minute\<rparr> store_before)
       ''alice@x.com'' =
     (store_after_second, None) \<and>
   ValidateResetToken (clock_world (5 * Minute)) store_after_second ''t0'' =
     (store_after_second, Inr ''bob@x.com'')"
  by (simp add: RequestPasswordReset_issued [where u = alice] issuing_world_simps)
    (simp add: ValidateResetToken_def clock_world_def sample_world_def store_after_second_def
      store_before_def bob_entry_def store_set_def store_delete_def
      After_def Minute_def Second_def)

subsection \<open>Completing a password reset\<close>

text \<open>Validation leaves the store alone unless it fails on an expired entry, which it deletes.\<close>

lemma ValidateResetToken_live_store:
  assumes "ValidateResetToken w store token = (store1, Inr email)"
  shows "store1 = store \<and> (\<exists>r. (email, r) \<in> set store \<and> Token r = token \<and>
           \<not> After (time_Now w 0) (ExpiresAt r))"
  using ValidateResetToken_range_cases [OF assms [unfolded ValidateResetToken_def]]
  by (auto simp: range_order_set)

lemma ValidateResetToken_failed_store:
  assumes "ValidateResetToken w store token = (store1, Inl err)"
  shows "(store1 = store \<and> err = ''invalid reset token'') \<or>
         (err = ''reset token has expired'' \<and>
          (\<exists>email r. (email, r) \<in> set store \<and> Token r = token \<and>
             After (time_Now w 0) (ExpiresAt r) \<and> store1 = store_delete email store))"
  using ValidateResetToken_range_cases [OF assms [unfolded ValidateResetToken_def]]
  by (auto simp: range_order_set)

text \<open>
  C3. For a call of \<^verbatim>\<open>ResetPassword\<close> whose token validates as live, every failure after
  the validation (new password shorter than 8 bytes, user lookup, hashing, database
  update) returns the store unchanged, and a success returns it with the entry of the
  token's email deleted, after the update of the password hash has succeeded. Whenever
  the store changes at all, the call either succeeded or deleted the expired entry that
  held the token, inside the validation.
\<close>

theorem ResetPassword_consumes_only_on_success:
  assumes "ResetPassword w store token newPassword = (store', res)"
  shows "(\<forall>email. snd (ValidateResetToken w store token) = Inr email \<longrightarrow>
            (res \<noteq> None \<longrightarrow> store' = store) \<and>
            (res = None \<longrightarrow> store' = store_delete email store \<and> 8 \<le> length newPassword \<and>
               (\<exists>user h n. db_QueryRow w (SelectUserForReset email) = Inr user \<and>
                  bcrypt_GenerateFromPassword w newPassword 12 = Inr h \<and>
                  db_Exec w (UpdatePasswordHash h (ID user)) = Inr n))) \<and>
         (store' \<noteq> store \<longrightarrow>
            (res = None \<and> (\<exists>email. snd (ValidateResetToken w store token) = Inr email)) \<or>
            (res = Some ''reset token has expired'' \<and>
             (\<exists>email r. (email, r) \<in> set store \<and> Token r = token \<and>
                After (time_Now w 0) (ExpiresAt r) \<and> store' = store_delete email store)))"
proof (cases "ValidateResetToken w store token")
  case (Pair store1 v)
  show ?thesis
  proof (cases v)
    case (Inl err)
    with Pair assms have r: "store' = store1" "res = Some err"
      by (simp_all add: ResetPassword_def)
    from ValidateResetToken_failed_store [OF Pair [unfolded Inl]] r
    show ?thesis using Pair Inl by auto
  next
    case (Inr email)
    from ValidateResetToken_live_store [OF Pair [unfolded Inr]]
    have s1: "store1 = store" by simp
    from assms Pair Inr s1 show ?thesis
      by (auto simp: ResetPassword_def split: if_splits sum.splits)
  qed
qed

lemma resetting_world_live:
  "ValidateResetToken (resetting_world upd) store_after_first ''t1'' =
     (store_after_first, Inr ''alice@x.com'')"
  by (simp add: ValidateResetToken_def resetting_world_def sample_world_def
      store_after_first_def bob_entry_def After_def Minute_def Second_def Let_def)

theorem ResetPassword_consumes_only_on_success_witness:
  "snd (ValidateResetToken (resetting_world (Inl (ErrDriver ''database is locked'')))
          store_after_first ''t1'') = Inr ''alice@x.com'' \<and>
   snd (ResetPassword (resetting_world (Inl (ErrDriver ''database is locked'')))
          store_after_first ''t1'' ''newpassword'') = Some ''failed to update password'' \<and>
   fst (ResetPassword (resetting_world (Inl (ErrDriver ''database is locked'')))
          store_after_first ''t1'' ''newpassword'') = store_after_first"
proof -
  let ?w = "resetting_world (Inl (ErrDriver ''database is locked''))"
  let ?run = "ResetPassword ?w store_after_first ''t1'' ''newpassword''"
  have live: "snd (ValidateResetToken ?w store_after_first ''t1'') = Inr ''alice@x.com''"
    by (simp add: resetting_world_live)
  have res: "snd ?run = Some ''failed to update password''"
    by (simp add: ResetPassword_def resetting_world_live)
      (simp add: resetting_world_def sample_world_def)
  have "?run = (fst ?run, snd ?run)" by simp
  from ResetPassword_consumes_only_on_success [OF this] live res
  have "fst ?run = store_after_first" by simp
  with live res show ?thesis by simp
qed

text \<open>A run that succeeds: the password is updated and the entry is gone.\<close>

lemma ResetPassword_success_run:
  "ResetPassword (resetting_world (Inr 1)) store_after_first ''t1'' ''newpassword'' =
     (store_before, None)"
  by (simp add: ResetPassword_def resetting_world_live)
    (simp add: resetting_world_def sample_world_def store_delete_def store_after_first_def
      store_before_def bob_entry_def)

subsection \<open>Login and registration\<close>

text \<open>How \<^verbatim>\<open>LoginUser\<close> fails before a token is generated, and the calls it has made by then.\<close>

lemma LoginUser_not_found:
  assumes "db_QueryRow w (SelectUserForLogin (login_Username req) (login_Username req)) = Inl e"
  shows "LoginUser w s req ip =
     (([], None, Some ''authorization failed''),
      [QueryRowCall (SelectUserForLogin (login_Username req) (login_Username req))])"
  using assms by (simp add: LoginUser_def Let_def)

lemma LoginUser_wrong_password:
  assumes "db_QueryRow w (SelectUserForLogin (login_Username req) (login_Username req)) = Inr row"
      and "\<not> bcrypt_CompareHashAndPassword w (PasswordHash row) (login_Password req)"
  shows "LoginUser w s req ip =
     (([], None, Some ''authorization failed''),
      [QueryRowCall (SelectUserForLogin (login_Username req) (login_Username req)),
       CompareHashAndPasswordCall (PasswordHash row) (login_Password req)])"
  using assms by (simp add: LoginUser_def Let_def)

lemma LoginUser_found_calls_hasher:
  assumes "db_QueryRow w (SelectUserForLogin (login_Username req) (login_Username req)) = Inr row"
  shows "CompareHashAndPasswordCall (PasswordHash row) (login_Password req)
           \<in> set (snd (LoginUser w s req ip))"
  using assms by (simp add: LoginUser_def Let_def split: sum.splits)

text \<open>
  C1. A login whose lookup finds no row and a login whose lookup finds the user but
  whose password does not verify get the same answer from \<^verbatim>\<open>LoginUser\<close>: the empty token,
  no user, and the error "authorization failed".
\<close>

theorem LoginUser_same_failure_for_unknown_user_and_wrong_password:
  assumes "db_QueryRow w1 (SelectUserForLogin (login_Username req1) (login_Username req1)) = Inl ErrNoRows"
      and "db_QueryRow w2 (SelectUserForLogin (login_Username req2) (login_Username req2)) = Inr row"
      and "\<not> bcrypt_CompareHashAndPassword w2 (PasswordHash row) (login_Password req2)"
  shows "fst (LoginUser w1 s1 req1 ip1) = ([], None, Some ''authorization failed'') \<and>
         fst (LoginUser w2 s2 req2 ip2) = ([], None, Some ''authorization failed'')"
  using assms by (simp add: LoginUser_not_found LoginUser_wrong_password)

lemma registered_world_simps:
  "db_QueryRow registered_world (SelectUserForLogin ''nobody'' ''nobody'') = Inl ErrNoRows"
  "db_QueryRow registered_world (SelectUserForLogin ''alice'' ''alice'') = Inr alice"
  "\<not> bcrypt_CompareHashAndPassword registered_world (PasswordHash alice) ''wrong''"
  by (simp_all add: registered_world_def sample_world_def alice_db_def alice_def)

theorem LoginUser_same_failure_for_unknown_user_and_wrong_password_witness:
  "fst (LoginUser registered_world sample_service
          \<lparr>login_Username = ''nobody'', login_Password = ''password1''\<rparr> ''127.0.0.1'') =
     ([], None, Some ''authorization failed'') \<and>
   fst (LoginUser registered_world sample_service
          \<lparr>login_Username = ''alice'', login_Password = ''wrong''\<rparr> ''127.0.0.1'') =
     ([], None, Some ''authorization failed'')"
  by (rule LoginUser_same_failure_for_unknown_user_and_wrong_password [where row = alice])
    (simp_all add: registered_world_simps)

text \<open>
  C6. A login for a name that the lookup does not find: \<^verbatim>\<open>LoginUser\<close> answers
  "authorization failed" right after the query. The only call it has made is the query;
  \<^verbatim>\<open>bcrypt.CompareHashAndPassword\<close> is not called on this path, while it is called
  whenever a row is found (\<open>LoginUser_found_calls_hasher\<close>).
\<close>

theorem LoginUser_unknown_user_returns_before_hashing:
  "LoginUser registered_world sample_service
     \<lparr>login_Username = ''nobody'', login_Password = ''password1''\<rparr> ''127.0.0.1'' =
   (([], None, Some ''authorization failed''),
    [QueryRowCall (SelectUserForLogin ''nobody'' ''nobody'')])"
  by (simp add: LoginUser_not_found [where e = ErrNoRows] registered_world_simps)

text \<open>
  C10. A registration whose password has at least 8 bytes and whose insert fails, with
  whatever database error, ends with the error "username or email already exists" and
  no user.
\<close>

theorem RegisterUser_insert_failure_is_conflict:
  assumes "8 \<le> length (reg_Password req)"
      and "bcrypt_GenerateFromPassword w (reg_Password req) bcrypt_DefaultCost = Inr h"
      and "db_Exec w (InsertUser (reg_Username req) (reg_Email req) h) = Inl e"
  shows "RegisterUser w req ip = (None, Some ''username or email already exists'')"
  using assms by (simp add: RegisterUser_def)

theorem RegisterUser_insert_failure_is_conflict_witness:
  "RegisterUser (sample_world\<lparr>db_Exec := (\<lambda>st. Inl (ErrDriver ''disk I/O error''))\<rparr>)
     \<lparr>reg_Username = ''bob'', reg_Email = ''bob@x.com'', reg_Password = ''password1''\<rparr>
     ''127.0.0.1'' =
   (None, Some ''username or email already exists'')"
  by (rule RegisterUser_insert_failure_is_conflict
      [where h = "''$2a$password1''" and e = "ErrDriver ''disk I/O error''"])
    (simp_all add: sample_world_def)

text \<open>The errors that \<^verbatim>\<open>RegisterUser\<close> can return: none of them is specific to the database.\<close>

lemma RegisterUser_outcomes:
  "snd (RegisterUser w req ip) \<in>
     {None, Some ''password must be at least 8 characters'',
      Some ''failed to process registration'', Some ''username or email already exists''}"
  by (simp add: RegisterUser_def split: sum.splits)

subsection \<open>The reset endpoints\<close>

text \<open>
  The endpoint \<^verbatim>\<open>validate-reset-token\<close> answers every failure of the service with one
  message; the endpoint \<^verbatim>\<open>reset-password\<close> forwards the service's message.
\<close>

lemma AuthController_ValidateResetToken_generic:
  assumes "token \<noteq> []" and "snd (ValidateResetToken w store token) = Inl err"
  shows "snd (AuthController_ValidateResetToken w store token) =
     \<lparr>resp_status = 400, resp_error = True,
      resp_message = ''Invalid or expired reset token'', resp_email = None\<rparr>"
  using assms
  by (cases "ValidateResetToken w store token")
    (simp add: AuthController_ValidateResetToken_def StatusBadRequest_def)

lemma AuthController_ResetPassword_forwards:
  assumes "token \<noteq> []" and "8 \<le> length pw" and "snd (ValidateResetToken w store token) = Inl err"
  shows "snd (AuthController_ResetPassword w store
           (Some \<lparr>body_Token = token, body_NewPassword = pw, body_ConfirmPassword = pw\<rparr>)) =
     \<lparr>resp_status = 400, resp_error = True, resp_message = err, resp_email = None\<rparr>"
proof -
  from assms(2) have "pw \<noteq> []" by auto
  with assms show ?thesis
    by (cases "ValidateResetToken w store token")
      (simp add: AuthController_ResetPassword_def ResetPassword_def StatusBadRequest_def)
qed

lemma late_world_validate:
  "ValidateResetToken late_world store_after_first ''t1'' =
     (store_before, Inl ''reset token has expired'')"
  "ValidateResetToken late_world store_after_first ''unknown'' =
     (store_after_first, Inl ''invalid reset token'')"
  by (simp_all add: ValidateResetToken_def late_world_def resetting_world_def sample_world_def
      store_after_first_def store_before_def bob_entry_def store_delete_def
      After_def Minute_def Second_def Let_def)

text \<open>
  C7. The same store, the same moment, an expired token and an unknown one. The
  endpoint \<^verbatim>\<open>validate-reset-token\<close> gives both the message "Invalid or expired reset
  token"; the endpoint \<^verbatim>\<open>reset-password\<close> answers the first with "reset token has
  expired" and the second with "invalid reset token".
\<close>

theorem AuthController_ResetPassword_tells_expired_from_unknown:
  "resp_message (snd (AuthController_ResetPassword late_world store_after_first
       (reset_request ''t1''))) = ''reset token has expired'' \<and>
   resp_message (snd (AuthController_ResetPassword late_world store_after_first
       (reset_request ''unknown''))) = ''invalid reset token'' \<and>
   resp_message (snd (AuthController_ValidateResetToken late_world store_after_first ''t1'')) =
     ''Invalid or expired reset token'' \<and>
   resp_message (snd (AuthController_ValidateResetToken late_world store_after_first ''unknown'')) =
     ''Invalid or expired reset token''"
  by (simp add: reset_request_def AuthController_ResetPassword_forwards
      AuthController_ValidateResetToken_generic late_world_validate)

subsection \<open>Conversions and the clock\<close>

text \<open>
  The conversion to an integer always gives a 64-bit value; it is exact on the integers
  that fit.
\<close>

lemma int64_bounds: "- 9223372036854775808 \<le> int64 n \<and> int64 n \<le> 9223372036854775807"
proof -
  have "0 \<le> (n + 9223372036854775808) mod 18446744073709551616"
    and "(n + 9223372036854775808) mod 18446744073709551616 < 18446744073709551616"
    by simp_all
  then show ?thesis unfolding int64_def by linarith
qed

lemma int_of_float64_bounds:
  "- 9223372036854775808 \<le> int_of_float64 w x \<and> int_of_float64 w x \<le> 9223372036854775807"
  using int64_bounds [of "float64_out_of_range w x"]
  by (simp add: int_of_float64_def Let_def)

lemma int_of_float64_of_int:
  assumes "- 9223372036854775808 \<le> n" and "n \<le> 9223372036854775807"
  shows "int_of_float64 w (of_int n) = n"
  using assms by (simp add: int_of_float64_def)

lemma int_of_float64_numeral:
  assumes "numeral n \<le> (9223372036854775807 :: int)"
  shows "int_of_float64 w (numeral n) = numeral n"
  using int_of_float64_of_int [of "numeral n" w] assms by simp

lemma Unix_seconds: "Unix (n * Second) = n"
  by (simp add: Unix_def Second_def)

lemma Unix_issue_time: "Unix issue_time = 1700000000"
  by (simp add: issue_time_def Unix_seconds)

subsection \<open>Session tokens\<close>

lemma Unix_add_week: "Unix (t + Hour * 24 * 7) = Unix t + 7 * 24 * 3600"
  by (simp add: Unix_def Hour_def Minute_def Second_def)

lemma GenerateToken_claims_values:
  "GenerateToken_claims w user ''user_id'' = Some (JNumber (of_int (ID user)))"
  "GenerateToken_claims w user ''username'' = Some (JString (Username user))"
  "GenerateToken_claims w user ''is_admin'' = Some (JBool (IsAdmin user))"
  "GenerateToken_claims w user ''exp'' = Some (JNumber (of_int (Unix (time_Now w 0) + 7 * 24 * 3600)))"
  "GenerateToken_claims w user ''iat'' = Some (JNumber (of_int (Unix (time_Now w 1))))"
  "GenerateToken_claims w user ''nbf'' = None"
  unfolding GenerateToken_claims_def Unix_add_week by simp_all

lemma GenerateToken_claims_dom:
  "dom (GenerateToken_claims w user) = {''user_id'', ''username'', ''is_admin'', ''exp'', ''iat''}"
  by (auto simp: GenerateToken_claims_def)

lemma GenerateToken_signed:
  assumes "jwt_SignedString w = lib_SignedString cd"
  shows "GenerateToken w s user =
     Inr (encode cd \<lparr>c_Method = SigningMethodHS256, c_Claims = GenerateToken_claims w user,
                     c_SignedBy = Some (SigningMethodHS256, jwtSecret s)\<rparr>)"
  using assms by (simp add: GenerateToken_def lib_SignedString_def jwt_NewWithClaims_def Let_def)

lemma ValidateToken_keyFunc_HMAC:
  "ValidateToken_keyFunc s token =
     (if (\<exists>name. Method token = SigningMethodHMAC name) then Inr (jwtSecret s)
      else Inl ''invalid token signing method'')"
  by (cases "Method token") (simp_all add: ValidateToken_keyFunc_def)

lemma lib_Parse_HMAC_own_key:
  assumes "decode cd tokenString = Some \<lparr>c_Method = SigningMethodHMAC name, c_Claims = claims,
             c_SignedBy = Some (SigningMethodHMAC name, jwtSecret s)\<rparr>"
  shows "lib_Parse cd libNow (ValidateToken_keyFunc s) tokenString =
     (if lib_VerifyExpiresAt claims libNow \<and> lib_VerifyIssuedAt claims libNow \<and>
         lib_VerifyNotBefore claims libNow
      then Inr \<lparr>Method = SigningMethodHMAC name, Claims = claims, Valid = True\<rparr>
      else Inl ''token claims are not valid'')"
  using assms by (simp add: lib_Parse_def ValidateToken_keyFunc_def lib_Verify_def Let_def)

text \<open>
  C4. \<^verbatim>\<open>GenerateToken\<close> reads the clock twice, first for \<^verbatim>\<open>exp\<close> and then for \<^verbatim>\<open>iat\<close>.
  When the first reading is the last nanosecond of second 0 and the second reading
  falls into second 1, the token carries \<^verbatim>\<open>exp\<close> 604800 and \<^verbatim>\<open>iat\<close> 1: \<^verbatim>\<open>exp\<close> is not
  \<^verbatim>\<open>iat\<close> plus 7 days, but a second less.
\<close>

theorem GenerateToken_exp_is_not_iat_plus_week:
  "GenerateToken_claims straddling_world alice ''exp'' = Some (JNumber 604800) \<and>
   GenerateToken_claims straddling_world alice ''iat'' = Some (JNumber 1) \<and>
   (604800 :: real) \<noteq> 1 + 7 * 24 * 3600"
  by (simp add: GenerateToken_claims_values straddling_world_def sample_world_def
      Unix_def Second_def)

text \<open>
  Apart from that second, an issued token behaves as C4 says. It carries exactly the
  claims \<^verbatim>\<open>user_id\<close>, \<^verbatim>\<open>username\<close>, \<^verbatim>\<open>is_admin\<close>, \<^verbatim>\<open>exp\<close> and \<^verbatim>\<open>iat\<close>, where \<^verbatim>\<open>exp\<close> is the
  first reading of the clock, in whole seconds, plus 7 days. With the reference library
  linked and a serialisation that decodes the token to what was encoded (which needs a
  \<^verbatim>\<open>user_id\<close> that a \<^verbatim>\<open>float64\<close> holds exactly), \<^verbatim>\<open>ValidateToken\<close> returns those claims
  exactly when the library reads the clock at or after \<^verbatim>\<open>iat\<close> and before \<^verbatim>\<open>exp\<close> and the
  service, after it, reads a second not after \<^verbatim>\<open>exp\<close>. A validation that the library
  starts at or after \<^verbatim>\<open>exp\<close> fails with "invalid or expired token".
\<close>

lemma issued_token_validation:
  fixes w1 w2 :: world and user :: User and s :: AuthService
  defines "claims \<equiv> GenerateToken_claims w1 user"
      and "expiry \<equiv> Unix (time_Now w1 0) + 7 * 24 * 3600"
      and "issued \<equiv> Unix (time_Now w1 1)"
  assumes sign: "jwt_SignedString w1 = lib_SignedString cd"
      and parse: "jwt_Parse w2 = lib_Parse cd libNow"
      and gen: "GenerateToken w1 s user = Inr tokenString"
      and roundtrip: "decode cd (encode cd
              \<lparr>c_Method = SigningMethodHS256, c_Claims = claims,
               c_SignedBy = Some (SigningMethodHS256, jwtSecret s)\<rparr>) =
            Some \<lparr>c_Method = SigningMethodHS256, c_Claims = claims,
                  c_SignedBy = Some (SigningMethodHS256, jwtSecret s)\<rparr>"
      and exact: "\<bar>ID user\<bar> \<le> 9007199254740992"
      and clock: "0 < Unix (time_Now w1 0)" "0 < issued" "expiry \<le> 9007199254740992"
  shows "dom claims = {''user_id'', ''username'', ''is_admin'', ''exp'', ''iat''} \<and>
         claims ''user_id'' = Some (JNumber (of_int (ID user))) \<and>
         claims ''username'' = Some (JString (Username user)) \<and>
         claims ''is_admin'' = Some (JBool (IsAdmin user)) \<and>
         claims ''exp'' = Some (JNumber (of_int expiry)) \<and>
         claims ''iat'' = Some (JNumber (of_int issued)) \<and>
         ValidateToken w2 s tokenString =
           (if issued \<le> libNow \<and> libNow < expiry
            then (if expiry < Unix (time_Now w2 0) then Inl ''token has expired''
                  else Inr claims)
            else Inl ''invalid or expired token'')"
proof -
  from gen have "tokenString = encode cd
      \<lparr>c_Method = SigningMethodHS256, c_Claims = claims,
       c_SignedBy = Some (SigningMethodHS256, jwtSecret s)\<rparr>"
    by (simp add: GenerateToken_signed [OF sign] claims_def)
  with roundtrip have dec: "decode cd tokenString =
      Some \<lparr>c_Method = SigningMethodHS256, c_Claims = claims,
            c_SignedBy = Some (SigningMethodHS256, jwtSecret s)\<rparr>"
    by simp
  have p: "lib_Parse cd libNow (ValidateToken_keyFunc s) tokenString =
     (if lib_VerifyExpiresAt claims libNow \<and> lib_VerifyIssuedAt claims libNow \<and>
         lib_VerifyNotBefore claims libNow
      then Inr \<lparr>Method = SigningMethodHS256, Claims = claims, Valid = True\<rparr>
      else Inl ''token claims are not valid'')"
    using dec unfolding SigningMethodHS256_def by (rule lib_Parse_HMAC_own_key)
  have e: "claims ''exp'' = Some (JNumber (of_int expiry))"
    and i: "claims ''iat'' = Some (JNumber (of_int issued))"
    and n: "claims ''nbf'' = None"
    by (simp_all add: claims_def expiry_def issued_def GenerateToken_claims_values)
  from clock have pos: "0 < expiry" by (simp add: expiry_def)
  from clock pos have conv: "int_of_float64 w2 (of_int expiry) = expiry"
    by (intro int_of_float64_of_int) simp_all
  have lib: "(lib_VerifyExpiresAt claims libNow \<and> lib_VerifyIssuedAt claims libNow \<and>
      lib_VerifyNotBefore claims libNow) = (issued \<le> libNow \<and> libNow < expiry)"
    using pos clock(2)
    by (auto simp: e i n lib_VerifyExpiresAt_def lib_VerifyIssuedAt_def lib_VerifyNotBefore_def)
  have v: "ValidateToken w2 s tokenString =
      (if issued \<le> libNow \<and> libNow < expiry
       then (if expiry < Unix (time_Now w2 0) then Inl ''token has expired''
             else Inr claims)
       else Inl ''invalid or expired token'')"
    by (simp add: ValidateToken_def parse p lib e conv)
  show ?thesis
    using v e i
    by (simp add: claims_def expiry_def issued_def GenerateToken_claims_values
        GenerateToken_claims_dom)
qed

lemma token_world_simps:
  "jwt_SignedString (token_world libNow now) = lib_SignedString sample_codec"
  "jwt_Parse (token_world libNow now) = lib_Parse sample_codec libNow"
  "time_Now (token_world libNow now) i = now"
  "float64_out_of_range (token_world libNow now) x = - 9223372036854775808"
  by (simp_all add: token_world_def sample_world_def)

lemma alice_claims_eq: "GenerateToken_claims (token_world libNow issue_time) alice = alice_claims"
  by (simp add: alice_claims_def GenerateToken_claims_def token_world_def sample_world_def)

lemma sample_codec_simps:
  "encode sample_codec c = ''alice.hs256''"
  "decode sample_codec ''alice.hs256'' =
     Some \<lparr>c_Method = SigningMethodHS256, c_Claims = alice_claims,
           c_SignedBy = Some (SigningMethodHS256, ''sup3rdup3rs3cr3t'')\<rparr>"
  "decode sample_codec ''alice.hs512'' =
     Some \<lparr>c_Method = SigningMethodHMAC ''HS512'', c_Claims = alice_claims,
           c_SignedBy = Some (SigningMethodHMAC ''HS512'', ''sup3rdup3rs3cr3t'')\<rparr>"
  "decode sample_codec ''alice.rs256'' =
     Some \<lparr>c_Method = SigningMethodRSA ''RS256'', c_Claims = alice_claims,
           c_SignedBy = Some (SigningMethodRSA ''RS256'', ''sup3rdup3rs3cr3t'')\<rparr>"
  "decode sample_codec ''alice.otherkey'' =
     Some \<lparr>c_Method = SigningMethodHS256, c_Claims = alice_claims,
           c_SignedBy = Some (SigningMethodHS256, ''guess'')\<rparr>"
  "decode sample_codec ''nameless.hs256'' =
     Some \<lparr>c_Method = SigningMethodHMAC ''HS256'', c_Claims = [''is_admin'' \<mapsto> JBool True],
           c_SignedBy = Some (SigningMethodHMAC ''HS256'', ''sup3rdup3rs3cr3t'')\<rparr>"
  "decode sample_codec ''root.hs256'' =
     Some \<lparr>c_Method = SigningMethodHMAC ''HS256'',
           c_Claims = alice_claims(''username'' \<mapsto> JString ''root'', ''is_admin'' \<mapsto> JBool True),
           c_SignedBy = Some (SigningMethodHMAC ''HS256'', ''sup3rdup3rs3cr3t'')\<rparr>"
  "decode sample_codec ''huge.hs256'' =
     Some \<lparr>c_Method = SigningMethodHMAC ''HS256'',
           c_Claims = alice_claims(''user_id'' \<mapsto> JNumber 1000000000000000000000000000000),
           c_SignedBy = Some (SigningMethodHMAC ''HS256'', ''sup3rdup3rs3cr3t'')\<rparr>"
  by (simp_all add: sample_codec_def signed_by_def SigningMethodHS256_def)

lemma alice_claims_values:
  "alice_claims ''exp'' = Some (JNumber 1700604800)"
  "alice_claims ''iat'' = Some (JNumber 1700000000)"
  "alice_claims ''nbf'' = None"
  "alice_claims ''user_id'' = Some (JNumber 7)"
  "alice_claims ''username'' = Some (JString ''alice'')"
  "alice_claims ''is_admin'' = Some (JBool False)"
  by (simp_all add: alice_claims_def GenerateToken_claims_values alice_def Unix_issue_time)

text \<open>
  \<open>alice\<close>'s token: issued, accepted 100 seconds later, and refused by the library from
  the second \<^verbatim>\<open>exp\<close> on.
\<close>

lemma issued_token_runs:
  "GenerateToken (token_world 1700000000 issue_time) sample_service alice = Inr ''alice.hs256''"
  "ValidateToken (token_world 1700000100 (1700000100 * Second)) sample_service ''alice.hs256'' =
     Inr alice_claims"
  "ValidateToken (token_world 1700604800 (1700604800 * Second)) sample_service ''alice.hs256'' =
     Inl ''invalid or expired token''"
proof -
  let ?w1 = "token_world 1700000000 issue_time"
  show gen: "GenerateToken ?w1 sample_service alice = Inr ''alice.hs256''"
    by (simp add: GenerateToken_signed [OF token_world_simps(1)] sample_codec_simps)
  have roundtrip: "decode sample_codec (encode sample_codec
        \<lparr>c_Method = SigningMethodHS256, c_Claims = GenerateToken_claims ?w1 alice,
         c_SignedBy = Some (SigningMethodHS256, jwtSecret sample_service)\<rparr>) =
      Some \<lparr>c_Method = SigningMethodHS256, c_Claims = GenerateToken_claims ?w1 alice,
            c_SignedBy = Some (SigningMethodHS256, jwtSecret sample_service)\<rparr>"
    by (simp add: sample_codec_simps alice_claims_eq sample_service_def)
  have exact: "\<bar>ID alice\<bar> \<le> 9007199254740992" by (simp add: alice_def)
  have clock: "0 < Unix (time_Now ?w1 0)" "0 < Unix (time_Now ?w1 1)"
    "Unix (time_Now ?w1 0) + 7 * 24 * 3600 \<le> 9007199254740992"
    by (simp_all add: token_world_simps Unix_issue_time)
  note v = issued_token_validation
    [OF token_world_simps(1) token_world_simps(2) gen roundtrip exact clock]
  from v [of 1700000100 "1700000100 * Second"]
  show "ValidateToken (token_world 1700000100 (1700000100 * Second)) sample_service
      ''alice.hs256'' = Inr alice_claims"
    by (simp add: token_world_simps alice_claims_eq Unix_issue_time Unix_seconds)
  from v [of 1700604800 "1700604800 * Second"]
  show "ValidateToken (token_world 1700604800 (1700604800 * Second)) sample_service
      ''alice.hs256'' = Inl ''invalid or expired token''"
    by (simp add: token_world_simps alice_claims_eq Unix_issue_time Unix_seconds)
qed

subsection \<open>What the validator refuses\<close>

lemma lib_Parse_rejects_method:
  assumes "decode cd tokenString = Some c" and "\<forall>name. c_Method c \<noteq> SigningMethodHMAC name"
  shows "\<exists>err. lib_Parse cd libNow (ValidateToken_keyFunc s) tokenString = Inl err"
  using assms by (simp add: lib_Parse_def Let_def ValidateToken_keyFunc_HMAC)

lemma lib_Parse_rejects_signature:
  assumes "decode cd tokenString = Some c" and "c_SignedBy c \<noteq> Some (c_Method c, jwtSecret s)"
  shows "\<exists>err. lib_Parse cd libNow (ValidateToken_keyFunc s) tokenString = Inl err"
  using assms
  by (cases "c_Method c")
    (simp_all add: lib_Parse_def Let_def ValidateToken_keyFunc_def lib_Verify_def)

lemma ValidateToken_library_error:
  assumes "jwt_Parse w (ValidateToken_keyFunc s) tokenString = Inl err"
  shows "ValidateToken w s tokenString = Inl ''invalid or expired token''"
  using assms by (simp add: ValidateToken_def)

text \<open>
  C5. With the reference library linked, \<^verbatim>\<open>ValidateToken\<close> refuses, with "invalid or
  expired token", every token whose header names a signing method that is not an HMAC
  method and every token whose signature is not the one that its method computes with
  the server's secret. Whatever the library does: when it returns a token whose \<^verbatim>\<open>exp\<close>
  claim is a number that lies before the current second of the service's clock,
  \<^verbatim>\<open>ValidateToken\<close> returns an error and no claims. The key function accepts every
  HMAC method, not HS256 alone.
\<close>

theorem ValidateToken_rejects_non_HMAC_and_expired:
  "(jwt_Parse w = lib_Parse cd libNow \<and> decode cd tokenString = Some c \<and>
      ((\<forall>name. c_Method c \<noteq> SigningMethodHMAC name) \<or>
       c_SignedBy c \<noteq> Some (c_Method c, jwtSecret s)) \<longrightarrow>
      ValidateToken w s tokenString = Inl ''invalid or expired token'') \<and>
   (jwt_Parse w' (ValidateToken_keyFunc s) tokenString' = Inr token \<and>
      Claims token ''exp'' = Some (JNumber e) \<and> int_of_float64 w' e < Unix (time_Now w' 0) \<longrightarrow>
      ValidateToken w' s tokenString' =
        (if Valid token then Inl ''token has expired'' else Inl ''invalid token'')) \<and>
   (Method token' = SigningMethodHMAC name' \<longrightarrow>
      ValidateToken_keyFunc s token' = Inr (jwtSecret s))"
proof (intro conjI impI)
  assume a: "jwt_Parse w = lib_Parse cd libNow \<and> decode cd tokenString = Some c \<and>
      ((\<forall>name. c_Method c \<noteq> SigningMethodHMAC name) \<or>
       c_SignedBy c \<noteq> Some (c_Method c, jwtSecret s))"
  then have "\<exists>err. lib_Parse cd libNow (ValidateToken_keyFunc s) tokenString = Inl err"
    using lib_Parse_rejects_method lib_Parse_rejects_signature by blast
  with a show "ValidateToken w s tokenString = Inl ''invalid or expired token''"
    by (auto simp: ValidateToken_library_error)
next
  assume "jwt_Parse w' (ValidateToken_keyFunc s) tokenString' = Inr token \<and>
      Claims token ''exp'' = Some (JNumber e) \<and> int_of_float64 w' e < Unix (time_Now w' 0)"
  then show "ValidateToken w' s tokenString' =
      (if Valid token then Inl ''token has expired'' else Inl ''invalid token'')"
    by (simp add: ValidateToken_def)
next
  assume "Method token' = SigningMethodHMAC name'"
  then show "ValidateToken_keyFunc s token' = Inr (jwtSecret s)"
    by (simp add: ValidateToken_keyFunc_def)
qed

theorem ValidateToken_rejects_non_HMAC_and_expired_witness:
  "ValidateToken (token_world 1700000100 (1700000100 * Second)) sample_service ''alice.rs256'' =
     Inl ''invalid or expired token'' \<and>
   ValidateToken lenient_world sample_service ''any'' = Inl ''token has expired'' \<and>
   ValidateToken_keyFunc sample_service
     \<lparr>Method = SigningMethodHMAC ''HS384'', Claims = Map.empty, Valid = False\<rparr> =
     Inr ''sup3rdup3rs3cr3t''"
proof -
  let ?w = "token_world 1700000100 (1700000100 * Second)"
  let ?tok = "\<lparr>Method = SigningMethodHS256, Claims = [''exp'' \<mapsto> JNumber 100], Valid = True\<rparr>"
  let ?tok' = "\<lparr>Method = SigningMethodHMAC ''HS384'', Claims = Map.empty, Valid = False\<rparr>"
  have h1: "jwt_Parse ?w = lib_Parse sample_codec 1700000100 \<and>
      decode sample_codec ''alice.rs256'' =
        Some (signed_by (SigningMethodRSA ''RS256'') alice_claims ''sup3rdup3rs3cr3t'') \<and>
      ((\<forall>name. c_Method (signed_by (SigningMethodRSA ''RS256'') alice_claims ''sup3rdup3rs3cr3t'')
          \<noteq> SigningMethodHMAC name) \<or>
       c_SignedBy (signed_by (SigningMethodRSA ''RS256'') alice_claims ''sup3rdup3rs3cr3t'') \<noteq>
         Some (c_Method (signed_by (SigningMethodRSA ''RS256'') alice_claims ''sup3rdup3rs3cr3t''),
               jwtSecret sample_service))"
    by (simp add: token_world_simps sample_codec_def signed_by_def)
  have h2: "jwt_Parse lenient_world (ValidateToken_keyFunc sample_service) ''any'' = Inr ?tok \<and>
      Claims ?tok ''exp'' = Some (JNumber 100) \<and>
      int_of_float64 lenient_world 100 < Unix (time_Now lenient_world 0)"
    by (simp add: lenient_world_def sample_world_def int_of_float64_numeral Unix_seconds)
  have h3: "Method ?tok' = SigningMethodHMAC ''HS384''" by simp
  note t = ValidateToken_rejects_non_HMAC_and_expired
    [of ?w sample_codec 1700000100 "''alice.rs256''"
        "signed_by (SigningMethodRSA ''RS256'') alice_claims ''sup3rdup3rs3cr3t''"
        sample_service lenient_world "''any''" ?tok 100 ?tok' "''HS384''"]
  from t [THEN conjunct1, THEN mp, OF h1]
  have r1: "ValidateToken ?w sample_service ''alice.rs256'' = Inl ''invalid or expired token''" .
  from t [THEN conjunct2, THEN conjunct1, THEN mp, OF h2]
  have r2: "ValidateToken lenient_world sample_service ''any'' = Inl ''token has expired''"
    by simp
  from t [THEN conjunct2, THEN conjunct2, THEN mp, OF h3]
  have r3: "ValidateToken_keyFunc sample_service ?tok' = Inr ''sup3rdup3rs3cr3t''"
    by (simp add: sample_service_def)
  from r1 r2 r3 show ?thesis by simp
qed

text \<open>
  C5, as stated, fails for a token signed with the server's secret under HS512, a
  method other than the HS256 that \<^verbatim>\<open>GenerateToken\<close> uses: it yields its claims.
\<close>

theorem ValidateToken_accepts_other_HMAC_variant:
  "ValidateToken (token_world 1700000100 (1700000100 * Second)) sample_service ''alice.hs512'' =
     Inr alice_claims"
  by (simp add: ValidateToken_def token_world_simps sample_service_def
      lib_Parse_HMAC_own_key [where name = "''HS512''" and claims = alice_claims
        and s = "\<lparr>jwtSecret = ''sup3rdup3rs3cr3t''\<rparr>", simplified]
      sample_codec_simps lib_VerifyExpiresAt_def lib_VerifyIssuedAt_def lib_VerifyNotBefore_def
      alice_claims_values Unix_seconds int_of_float64_numeral)

subsection \<open>Middleware\<close>

text \<open>
  \<^verbatim>\<open>strings.Split\<close> on a space gives exactly the two parts \<open>Bearer\<close> and \<open>t\<close> when the
  header is \<open>Bearer\<close>, one space, and a token \<open>t\<close> without a space, and only then.
\<close>

lemma strings_Split_no_sep: "sep \<notin> set s \<Longrightarrow> strings_Split s sep = [s]"
  by (induction s) auto

lemma strings_Split_append:
  "sep \<notin> set a \<Longrightarrow> strings_Split (a @ sep # t) sep = a # strings_Split t sep"
  by (induction a) auto

lemma strings_Split_not_Nil: "strings_Split s sep \<noteq> []"
  by (induction s) (auto split: list.splits)

lemma strings_Split_Cons:
  "strings_Split s sep = p # ps \<Longrightarrow>
     sep \<notin> set p \<and> (if ps = [] then s = p
                      else \<exists>rest. s = p @ sep # rest \<and> strings_Split rest sep = ps)"
proof (induction s arbitrary: p ps)
  case Nil
  then show ?case by simp
next
  case (Cons x xs)
  show ?case
  proof (cases "x = sep")
    case True
    with Cons.prems show ?thesis by (auto simp: strings_Split_not_Nil)
  next
    case False
    then obtain q qs where q: "strings_Split xs sep = q # qs"
      using Cons.prems by (cases "strings_Split xs sep") (auto simp: strings_Split_not_Nil)
    with False Cons.prems have p: "p = x # q" "ps = qs" by auto
    from Cons.IH [OF q] False p show ?thesis by (auto split: if_splits)
  qed
qed

lemma bearer_form:
  "(length (strings_Split h CHR '' '') = 2 \<and> strings_Split h CHR '' '' ! 0 = ''Bearer'') =
   (\<exists>t. h = ''Bearer '' @ t \<and> CHR '' '' \<notin> set t)"
proof
  assume a: "length (strings_Split h CHR '' '') = 2 \<and> strings_Split h CHR '' '' ! 0 = ''Bearer''"
  then obtain q where s: "strings_Split h CHR '' '' = [''Bearer'', q]"
    by (cases "strings_Split h CHR '' ''"; cases "tl (strings_Split h CHR '' '')") auto
  from strings_Split_Cons [OF s] obtain rest
    where r: "h = ''Bearer'' @ CHR '' '' # rest" "strings_Split rest CHR '' '' = [q]"
    by auto
  from strings_Split_Cons [OF r(2)] have "CHR '' '' \<notin> set q" "rest = q" by auto
  with r show "\<exists>t. h = ''Bearer '' @ t \<and> CHR '' '' \<notin> set t" by auto
next
  assume "\<exists>t. h = ''Bearer '' @ t \<and> CHR '' '' \<notin> set t"
  then obtain t where t: "h = ''Bearer'' @ CHR '' '' # t" "CHR '' '' \<notin> set t" by auto
  have "strings_Split (''Bearer'' @ CHR '' '' # t) CHR '' '' = ''Bearer'' # strings_Split t CHR '' ''"
    by (rule strings_Split_append) simp
  with t show "length (strings_Split h CHR '' '') = 2 \<and> strings_Split h CHR '' '' ! 0 = ''Bearer''"
    by (simp add: strings_Split_no_sep)
qed

lemma bearer_token:
  assumes "CHR '' '' \<notin> set t"
  shows "strings_Split (''Bearer '' @ t) CHR '' '' = [''Bearer'', t]"
proof -
  have "strings_Split (''Bearer'' @ CHR '' '' # t) CHR '' '' = ''Bearer'' # strings_Split t CHR '' ''"
    by (rule strings_Split_append) simp
  with assms show ?thesis by (simp add: strings_Split_no_sep)
qed

lemma AuthMiddleware_no_header:
  assumes "Get c ''Authorization'' = []"
  shows "AuthMiddleware w s c = Respond 401 ''Authentication required''"
  using assms by (simp add: AuthMiddleware_def StatusUnauthorized_def)

lemma AuthMiddleware_malformed:
  assumes "Get c ''Authorization'' \<noteq> []"
      and "\<not> (\<exists>t. Get c ''Authorization'' = ''Bearer '' @ t \<and> CHR '' '' \<notin> set t)"
  shows "AuthMiddleware w s c = Respond 401 ''Invalid authorization format''"
proof -
  from assms(2) have "\<not> (length (strings_Split (Get c ''Authorization'') CHR '' '') = 2 \<and>
      strings_Split (Get c ''Authorization'') CHR '' '' ! 0 = ''Bearer'')"
    by (simp only: bearer_form not_False_eq_True)
  with assms(1) show ?thesis
    by (auto simp: AuthMiddleware_def StatusUnauthorized_def Let_def)
qed

lemma AuthMiddleware_bearer:
  assumes "Get c ''Authorization'' = ''Bearer '' @ t" and "CHR '' '' \<notin> set t"
  shows "AuthMiddleware w s c =
     (case ValidateToken w s t of
        Inl _ \<Rightarrow> Respond 401 ''Invalid or expired token''
      | Inr claims \<Rightarrow>
          (case claims ''user_id'' of
             Some (JNumber userID) \<Rightarrow>
               Next (attach c (int_of_float64 w userID)
                 (case claims ''username'' of Some (JString u) \<Rightarrow> u | _ \<Rightarrow> [])
                 (case claims ''is_admin'' of Some (JBool b) \<Rightarrow> b | _ \<Rightarrow> False))
           | _ \<Rightarrow> Respond 401 ''Invalid token''))"
proof -
  have "strings_Split (Get c ''Authorization'') CHR '' '' = [''Bearer'', t]"
    using assms bearer_token by simp
  moreover have "Get c ''Authorization'' \<noteq> []" using assms by simp
  ultimately show ?thesis
    by (simp add: AuthMiddleware_def StatusUnauthorized_def Let_def attach_def
        split: sum.splits option.splits json.splits)
qed

lemma AdminMiddleware_after_attach:
  "AdminMiddleware (attach c userID username isAdmin) =
     (if isAdmin then Next (attach c userID username isAdmin)
      else Respond 403 ''Admin access required'')"
  by (simp add: AdminMiddleware_def attach_def StatusForbidden_def)

text \<open>
  C8. For every request, \<^verbatim>\<open>AuthMiddleware\<close> answers 401 when the \<^verbatim>\<open>Authorization\<close>
  header is missing or empty, 401 when it is not \<open>Bearer\<close>, one space and a token
  without a space, and 401 when \<^verbatim>\<open>ValidateToken\<close> refuses the token. When the token is
  valid and its \<^verbatim>\<open>user_id\<close> claim is a number, it stores \<^verbatim>\<open>user_id\<close> (the number as
  Go's \<^verbatim>\<open>int()\<close> converts it: the fraction cut off when the result fits in 64 bits, the
  platform's 64-bit value otherwise), \<^verbatim>\<open>username\<close> and \<^verbatim>\<open>is_admin\<close> in the request's
  context and continues,
  and on an admin route \<^verbatim>\<open>AdminMiddleware\<close> then answers 403 when \<^verbatim>\<open>is_admin\<close> is false
  and continues when it is true. A fifth state: when the token is valid and its
  \<^verbatim>\<open>user_id\<close> claim is absent or not a number, the answer is 401.
\<close>

theorem middleware_state_machine:
  "(Get c ''Authorization'' = [] \<longrightarrow>
      AuthMiddleware w s c = Respond 401 ''Authentication required'') \<and>
   (Get c ''Authorization'' \<noteq> [] \<and>
    \<not> (\<exists>t. Get c ''Authorization'' = ''Bearer '' @ t \<and> CHR '' '' \<notin> set t) \<longrightarrow>
      AuthMiddleware w s c = Respond 401 ''Invalid authorization format'') \<and>
   (Get c ''Authorization'' = ''Bearer '' @ t \<and> CHR '' '' \<notin> set t \<and>
    ValidateToken w s t = Inl err \<longrightarrow>
      AuthMiddleware w s c = Respond 401 ''Invalid or expired token'') \<and>
   (Get c ''Authorization'' = ''Bearer '' @ t \<and> CHR '' '' \<notin> set t \<and>
    ValidateToken w s t = Inr claims \<and> claims ''user_id'' = Some (JNumber userID) \<and>
    username = (case claims ''username'' of Some (JString u) \<Rightarrow> u | _ \<Rightarrow> []) \<and>
    isAdmin = (case claims ''is_admin'' of Some (JBool b) \<Rightarrow> b | _ \<Rightarrow> False) \<longrightarrow>
      AuthMiddleware w s c = Next (attach c (int_of_float64 w userID) username isAdmin) \<and>
      admin_group w s c =
        (if isAdmin then Next (attach c (int_of_float64 w userID) username isAdmin)
         else Respond 403 ''Admin access required'')) \<and>
   (Get c ''Authorization'' = ''Bearer '' @ t \<and> CHR '' '' \<notin> set t \<and>
    ValidateToken w s t = Inr claims \<and> (\<forall>x. claims ''user_id'' \<noteq> Some (JNumber x)) \<longrightarrow>
      AuthMiddleware w s c = Respond 401 ''Invalid token'')"
proof (intro conjI impI)
  assume "Get c ''Authorization'' = []"
  then show "AuthMiddleware w s c = Respond 401 ''Authentication required''"
    by (rule AuthMiddleware_no_header)
next
  assume "Get c ''Authorization'' \<noteq> [] \<and>
    \<not> (\<exists>t. Get c ''Authorization'' = ''Bearer '' @ t \<and> CHR '' '' \<notin> set t)"
  then show "AuthMiddleware w s c = Respond 401 ''Invalid authorization format''"
    using AuthMiddleware_malformed by blast
next
  assume "Get c ''Authorization'' = ''Bearer '' @ t \<and> CHR '' '' \<notin> set t \<and>
    ValidateToken w s t = Inl err"
  then show "AuthMiddleware w s c = Respond 401 ''Invalid or expired token''"
    by (simp add: AuthMiddleware_bearer)
next
  assume a: "Get c ''Authorization'' = ''Bearer '' @ t \<and> CHR '' '' \<notin> set t \<and>
    ValidateToken w s t = Inr claims \<and> claims ''user_id'' = Some (JNumber userID) \<and>
    username = (case claims ''username'' of Some (JString u) \<Rightarrow> u | _ \<Rightarrow> []) \<and>
    isAdmin = (case claims ''is_admin'' of Some (JBool b) \<Rightarrow> b | _ \<Rightarrow> False)"
  then show m: "AuthMiddleware w s c = Next (attach c (int_of_float64 w userID) username isAdmin)"
    by (simp add: AuthMiddleware_bearer)
  show "admin_group w s c =
        (if isAdmin then Next (attach c (int_of_float64 w userID) username isAdmin)
         else Respond 403 ''Admin access required'')"
    by (simp add: admin_group_def m AdminMiddleware_after_attach)
next
  assume a: "Get c ''Authorization'' = ''Bearer '' @ t \<and> CHR '' '' \<notin> set t \<and>
    ValidateToken w s t = Inr claims \<and> (\<forall>x. claims ''user_id'' \<noteq> Some (JNumber x))"
  then have "AuthMiddleware w s c =
      (case claims ''user_id'' of
         Some (JNumber userID) \<Rightarrow>
           Next (attach c (int_of_float64 w userID)
             (case claims ''username'' of Some (JString u) \<Rightarrow> u | _ \<Rightarrow> [])
             (case claims ''is_admin'' of Some (JBool b) \<Rightarrow> b | _ \<Rightarrow> False))
       | _ \<Rightarrow> Respond 401 ''Invalid token'')"
    by (simp add: AuthMiddleware_bearer)
  with a show "AuthMiddleware w s c = Respond 401 ''Invalid token''"
    by (auto split: option.splits json.splits)
qed


lemma serving_world_validates:
  "ValidateToken serving_world sample_service ''alice.hs256'' = Inr alice_claims"
  "ValidateToken serving_world sample_service ''root.hs256'' =
     Inr (alice_claims(''username'' \<mapsto> JString ''root'', ''is_admin'' \<mapsto> JBool True))"
  "ValidateToken serving_world sample_service ''nameless.hs256'' = Inr [''is_admin'' \<mapsto> JBool True]"
  "ValidateToken serving_world sample_service ''alice.rs256'' = Inl ''invalid or expired token''"
  "ValidateToken serving_world sample_service ''alice.otherkey'' = Inl ''invalid or expired token''"
  "ValidateToken serving_world sample_service ''huge.hs256'' =
     Inr (alice_claims(''user_id'' \<mapsto> JNumber 1000000000000000000000000000000))"
  by (simp_all add: serving_world_def ValidateToken_def token_world_simps lib_Parse_def
      sample_codec_simps ValidateToken_keyFunc_def lib_Verify_def Let_def
      lib_VerifyExpiresAt_def lib_VerifyIssuedAt_def lib_VerifyNotBefore_def
      alice_claims_values sample_service_def SigningMethodHS256_def
      Unix_seconds int_of_float64_numeral)

lemma serving_world_huge:
  "int_of_float64 serving_world 1000000000000000000000000000000 = - 9223372036854775808"
  by (simp add: int_of_float64_def serving_world_def token_world_simps int64_def)

lemma request_simps:
  "Get (request h) ''Authorization'' = h"
  by (simp add: request_def)

theorem middleware_state_machine_witness:
  "AuthMiddleware serving_world sample_service (request []) =
     Respond 401 ''Authentication required'' \<and>
   AuthMiddleware serving_world sample_service (request ''Basic YWxpY2U6cGFzc3dvcmQx'') =
     Respond 401 ''Invalid authorization format'' \<and>
   AuthMiddleware serving_world sample_service (request ''Bearer alice.rs256'') =
     Respond 401 ''Invalid or expired token'' \<and>
   AuthMiddleware serving_world sample_service (request ''Bearer alice.hs256'') =
     Next (attach (request ''Bearer alice.hs256'') 7 ''alice'' False) \<and>
   admin_group serving_world sample_service (request ''Bearer alice.hs256'') =
     Respond 403 ''Admin access required'' \<and>
   admin_group serving_world sample_service (request ''Bearer root.hs256'') =
     Next (attach (request ''Bearer root.hs256'') 7 ''root'' True) \<and>
   AuthMiddleware serving_world sample_service (request ''Bearer huge.hs256'') =
     Next (attach (request ''Bearer huge.hs256'') (- 9223372036854775808) ''alice'' False)"
proof -
  note t = middleware_state_machine [where w = serving_world and s = sample_service]
  have r1: "AuthMiddleware serving_world sample_service (request []) =
      Respond 401 ''Authentication required''"
    by (rule t [THEN conjunct1, THEN mp]) (simp add: request_simps)
  have r2: "AuthMiddleware serving_world sample_service (request ''Basic YWxpY2U6cGFzc3dvcmQx'') =
      Respond 401 ''Invalid authorization format''"
    by (rule t [THEN conjunct2, THEN conjunct1, THEN mp]) (simp add: request_simps)
  have r3: "AuthMiddleware serving_world sample_service (request ''Bearer alice.rs256'') =
      Respond 401 ''Invalid or expired token''"
    by (rule t [where t = "''alice.rs256''" and err = "''invalid or expired token''",
          THEN conjunct2, THEN conjunct2, THEN conjunct1, THEN mp])
      (simp add: request_simps serving_world_validates)
  have r4: "AuthMiddleware serving_world sample_service (request ''Bearer alice.hs256'') =
        Next (attach (request ''Bearer alice.hs256'') (int_of_float64 serving_world 7) ''alice'' False) \<and>
      admin_group serving_world sample_service (request ''Bearer alice.hs256'') =
        (if False then Next (attach (request ''Bearer alice.hs256'') (int_of_float64 serving_world 7) ''alice'' False)
         else Respond 403 ''Admin access required'')"
    by (rule t [where t = "''alice.hs256''" and claims = alice_claims,
          THEN conjunct2, THEN conjunct2, THEN conjunct2, THEN conjunct1, THEN mp])
      (simp add: request_simps serving_world_validates alice_claims_values)
  have r5: "AuthMiddleware serving_world sample_service (request ''Bearer root.hs256'') =
        Next (attach (request ''Bearer root.hs256'') (int_of_float64 serving_world 7) ''root'' True) \<and>
      admin_group serving_world sample_service (request ''Bearer root.hs256'') =
        (if True then Next (attach (request ''Bearer root.hs256'') (int_of_float64 serving_world 7) ''root'' True)
         else Respond 403 ''Admin access required'')"
    by (rule t [where t = "''root.hs256''"
          and claims = "alice_claims(''username'' \<mapsto> JString ''root'', ''is_admin'' \<mapsto> JBool True)",
          THEN conjunct2, THEN conjunct2, THEN conjunct2, THEN conjunct1, THEN mp])
      (simp add: request_simps serving_world_validates alice_claims_values)
  have r6: "AuthMiddleware serving_world sample_service (request ''Bearer huge.hs256'') =
        Next (attach (request ''Bearer huge.hs256'')
          (int_of_float64 serving_world 1000000000000000000000000000000) ''alice'' False) \<and>
      admin_group serving_world sample_service (request ''Bearer huge.hs256'') =
        (if False then Next (attach (request ''Bearer huge.hs256'')
          (int_of_float64 serving_world 1000000000000000000000000000000) ''alice'' False)
         else Respond 403 ''Admin access required'')"
    by (rule t [where t = "''huge.hs256''"
          and claims = "alice_claims(''user_id'' \<mapsto> JNumber 1000000000000000000000000000000)",
          THEN conjunct2, THEN conjunct2, THEN conjunct2, THEN conjunct1, THEN mp])
      (simp add: request_simps serving_world_validates alice_claims_values)
  from r1 r2 r3 r4 r5 r6 show ?thesis
    by (simp add: int_of_float64_numeral serving_world_huge)
qed

text \<open>
  C8, as stated, fails for a token that \<^verbatim>\<open>ValidateToken\<close> accepts and that carries no
  \<^verbatim>\<open>user_id\<close>: the request is answered with 401 and not continued.
\<close>

theorem valid_token_without_user_id_is_rejected:
  "ValidateToken serving_world sample_service ''nameless.hs256'' = Inr [''is_admin'' \<mapsto> JBool True] \<and>
   AuthMiddleware serving_world sample_service (request ''Bearer nameless.hs256'') =
     Respond 401 ''Invalid token''"
  by (simp add: serving_world_validates AuthMiddleware_bearer [where t = "''nameless.hs256''"]
      request_simps)

end
